theory Spec2Isabelle
  imports Main
begin

section \<open>JavaScript values handled by the resolver\<close>

text \<open>
  The module \<open>src/index.js\<close> (class \<open>IPLDResolver\<close>) is embedded function by function.
  Promises are modelled by their outcome: a rejected promise or a thrown exception is
  \<open>Inl\<close> of the error, a fulfilled one is \<open>Inr\<close> of the value. Mutable members of the
  instance and the variables captured by the \<open>next\<close> closures are passed in and returned.
\<close>

datatype js_error = Error string | TypeError string

type_synonym buffer = string

text \<open>
  A CID of the \<open>cids\<close> package (0.5.x): an object with the three own properties
  \<open>version\<close>, \<open>codec\<close> (the codec's name, a string) and \<open>multihash\<close>.
\<close>

datatype cid = CID (cid_version: int) (cid_codec: string) (cid_multihash: buffer)

datatype block = Block (block_data: buffer) (block_cid: cid)

text \<open>
  The values a format hands back. \<open>JObj\<close> lists the own enumerable properties of a plain
  object in insertion order (keys distinct); numbers are the integers.
\<close>

datatype jsval =
    JUndefined
  | JNull
  | JBool bool
  | JNum int
  | JStr string
  | JBuf buffer
  | JCid cid
  | JArr "jsval list"
  | JObj "(string \<times> jsval) list"

type_synonym jsobj = "(string \<times> jsval) list"

text \<open>The outcome of one call of an iterator's \<open>next\<close>.\<close>

datatype 'a iter = Done | Yield 'a | Reject js_error

text \<open>Truthiness, as tested by \<open>if (x)\<close>, \<open>!x\<close> and \<open>x && y\<close>.\<close>

fun truthy :: "jsval \<Rightarrow> bool" where
  "truthy JUndefined = False"
| "truthy JNull = False"
| "truthy (JBool b) = b"
| "truthy (JNum n) = (n \<noteq> 0)"
| "truthy (JStr s) = (s \<noteq> [])"
| "truthy (JBuf b) = True"
| "truthy (JCid c) = True"
| "truthy (JArr xs) = True"
| "truthy (JObj kvs) = True"

text \<open>
  \<open>Object.keys(value).length\<close>: \<open>Object.keys\<close> throws a TypeError on \<open>undefined\<close> and
  \<open>null\<close>; it boxes the other primitives, so a boolean or a number has no key and a
  string has one key per character; an array or a Buffer has one key per element.
\<close>

fun Object_keys_length :: "jsval \<Rightarrow> js_error + nat" where
  "Object_keys_length JUndefined = Inl (TypeError ''Cannot convert undefined or null to object'')"
| "Object_keys_length JNull = Inl (TypeError ''Cannot convert undefined or null to object'')"
| "Object_keys_length (JBool b) = Inr 0"
| "Object_keys_length (JNum n) = Inr 0"
| "Object_keys_length (JStr s) = Inr (length s)"
| "Object_keys_length (JBuf b) = Inr (length b)"
| "Object_keys_length (JCid c) = Inr 3"
| "Object_keys_length (JArr xs) = Inr (length xs)"
| "Object_keys_length (JObj kvs) = Inr (length kvs)"

text \<open>
  A number in decimal notation, as a template literal or an error message prints an
  integer (of fewer than 22 digits).
\<close>

fun decimal :: "nat \<Rightarrow> string" where
  "decimal n =
     (if n < 10 then [''0123456789'' ! n]
      else decimal (n div 10) @ [''0123456789'' ! (n mod 10)])"

declare decimal.simps [simp del]

definition number_toString :: "int \<Rightarrow> string" where
  "number_toString n = (if n < 0 then ''-'' @ decimal (nat (- n)) else decimal (nat n))"

text \<open>
  \<open>'/' in value\<close>: the \<open>in\<close> operator throws a TypeError when its right operand is a
  primitive; the message ends with the operand. Neither an array, a Buffer nor a CID
  has a property named \<open>/\<close>.
\<close>

fun slash_in :: "jsval \<Rightarrow> js_error + bool" where
  "slash_in (JObj kvs) = Inr (''/'' \<in> set (map fst kvs))"
| "slash_in (JArr xs) = Inr False"
| "slash_in (JBuf b) = Inr False"
| "slash_in (JCid c) = Inr False"
| "slash_in JUndefined =
     Inl (TypeError ''Cannot use 'in' operator to search for '/' in undefined'')"
| "slash_in JNull = Inl (TypeError ''Cannot use 'in' operator to search for '/' in null'')"
| "slash_in (JBool b) =
     Inl (TypeError (''Cannot use 'in' operator to search for '/' in ''
                     @ (if b then ''true'' else ''false'')))"
| "slash_in (JNum n) =
     Inl (TypeError (''Cannot use 'in' operator to search for '/' in '' @ number_toString n))"
| "slash_in (JStr s) =
     Inl (TypeError (''Cannot use 'in' operator to search for '/' in '' @ s))"

text \<open>\<open>obj[key]\<close> on a plain object: \<open>undefined\<close> for a missing key.\<close>

definition get_prop :: "jsobj \<Rightarrow> string \<Rightarrow> jsval" where
  "get_prop obj k = (case map_of obj k of None \<Rightarrow> JUndefined | Some v \<Rightarrow> v)"

text \<open>
  \<open>value['/']\<close> on a value that is neither \<open>undefined\<close> nor \<open>null\<close> (every use in the
  module is guarded so): only a plain object can hold the key.
\<close>

fun get_slash :: "jsval \<Rightarrow> jsval" where
  "get_slash (JObj kvs) = get_prop kvs ''/''"
| "get_slash v = JUndefined"

text \<open>
  \<open>mergeOptions(defaults, userOptions)\<close> of the \<open>merge-options\<close> package: an \<open>undefined\<close>
  second argument is skipped; otherwise every property of the user's object replaces
  the default of that name or is added. (The package merges two values only when both
  are plain objects; the defaults of this module are primitives.)
\<close>

fun set_prop :: "string \<Rightarrow> jsval \<Rightarrow> jsobj \<Rightarrow> jsobj" where
  "set_prop k v [] = [(k, v)]"
| "set_prop k v ((k', v') # rest) =
     (if k = k' then (k, v) # rest else (k', v') # set_prop k v rest)"

fun mergeOptions :: "jsobj \<Rightarrow> jsobj option \<Rightarrow> jsobj" where
  "mergeOptions defaults None = defaults"
| "mergeOptions defaults (Some []) = defaults"
| "mergeOptions defaults (Some ((k, v) # rest)) = mergeOptions (set_prop k v defaults) (Some rest)"

text \<open>String concatenation \<open>a + b\<close> where an operand may be \<open>undefined\<close>.\<close>

fun js_string :: "string option \<Rightarrow> string" where
  "js_string None = ''undefined''"
| "js_string (Some s) = s"

text \<open>\<open>s.startsWith(p)\<close> and \<open>s.slice(n)\<close> on strings.\<close>

definition startsWith :: "string \<Rightarrow> string \<Rightarrow> bool" where
  "startsWith s p = (take (length p) s = p)"

definition slice :: "string \<Rightarrow> nat \<Rightarrow> string" where
  "slice s n = drop n s"

section \<open>Collaborators: formats, multicodec table, CID constructor, block service\<close>

record resolve_result =
  val :: jsval
  remainderPath :: string

record cid_options =
  version :: jsval
  hashAlg :: jsval
  onlyHash :: jsval

text \<open>
  An IPLD format as the module uses it: \<open>format.resolver\<close> with \<open>multicodec\<close>,
  \<open>resolve\<close>, \<open>tree\<close> and \<open>isLink\<close>; \<open>format.util\<close> with \<open>serialize\<close>, \<open>deserialize\<close> and
  \<open>cid\<close>; and the property \<open>defaultHashAlg\<close> read by \<open>put\<close> (\<open>JUndefined\<close> when the
  object has no such property). The callback-style functions are used through
  \<open>promisify\<close>, so each returns an error or a value.
\<close>

record format_resolver =
  multicodec :: string
  resolve :: "buffer \<Rightarrow> string \<Rightarrow> js_error + resolve_result"
  tree :: "buffer \<Rightarrow> js_error + string list"
  isLink :: "buffer \<Rightarrow> string option \<Rightarrow> js_error + jsval"

record format_util =
  serialize :: "jsval \<Rightarrow> js_error + buffer"
  deserialize :: "buffer \<Rightarrow> js_error + jsval"
  util_cid :: "jsval \<Rightarrow> cid_options \<Rightarrow> js_error + cid"

record format =
  resolver :: format_resolver
  util :: format_util
  defaultHashAlg :: jsval

text \<open>
  What the module takes from outside the repository, for a block store with states of
  type \<open>'s\<close>:
  \<^item> the \<open>multicodec\<close> table: \<open>getCode (getCodeVarint name)\<close> (the lookup throws for an
    unknown name), the constants \<open>multicodec[CONSTANT_NAME]\<close> and \<open>multicodec.print\<close>;
  \<^item> \<open>new CID(x)\<close>, which throws when \<open>x\<close> is not a valid CID;
  \<^item> the block service's \<open>get\<close>, \<open>put\<close> and \<open>delete\<close>. A failed \<open>put\<close> or \<open>delete\<close>
    reports its error and leaves the store as it was.
\<close>

record 's externals =
  mc_getCode :: "string \<Rightarrow> int option"
  mc_constant :: "string \<Rightarrow> int option"
  mc_print :: "int \<Rightarrow> string option"
  newCID :: "jsval \<Rightarrow> js_error + cid"
  bs_get :: "'s \<Rightarrow> cid \<Rightarrow> js_error + block"
  bs_put :: "'s \<Rightarrow> block \<Rightarrow> js_error + 's"
  bs_delete :: "'s \<Rightarrow> cid \<Rightarrow> js_error + 's"

text \<open>
  \<open>multicodec.print[codec]\<close> inside a template literal; a codec that is \<open>undefined\<close> or
  not in the table prints as \<open>undefined\<close>.
\<close>

definition codecName :: "'s externals \<Rightarrow> int option \<Rightarrow> string" where
  "codecName ex codec =
     js_string (case codec of None \<Rightarrow> None | Some n \<Rightarrow> mc_print ex n)"

section \<open>The resolver instance and its registry\<close>

text \<open>
  The members of an \<open>IPLDResolver\<close>: \<open>bs\<close> (the block store's state), \<open>resolvers\<close> (keyed
  by the numeric codec) and \<open>loadFormat\<close>. \<open>loadFormat_calls\<close> records the codecs
  \<open>loadFormat\<close> has been invoked with, oldest first.
\<close>

record 's IPLDResolver =
  bs :: 's
  resolvers :: "int \<rightharpoonup> format"
  loadFormat :: "int option \<Rightarrow> js_error + format"
  loadFormat_calls :: "int option list"

text \<open>
  \<open>addFormat\<close> (lines 48-63). The entry stored is a new object holding \<open>format.resolver\<close>
  and \<open>format.util\<close> only. A throw leaves the instance as it was.
\<close>

definition addFormat ::
  "'s externals \<Rightarrow> format \<Rightarrow> 's IPLDResolver \<Rightarrow> (js_error + unit) \<times> 's IPLDResolver" where
  "addFormat ex fmt self =
     (case mc_getCode ex (multicodec (resolver fmt)) of
        None \<Rightarrow> (Inl (Error (''Codec `'' @ multicodec (resolver fmt) @ ''` not found'')), self)
      | Some codec \<Rightarrow>
          (case resolvers self codec of
             Some _ \<Rightarrow>
               (Inl (Error (''Resolver already exists for codec \"''
                             @ codecName ex (Some codec) @ ''\"'')), self)
           | None \<Rightarrow>
               (Inr (),
                self\<lparr>resolvers := (resolvers self)
                  (codec \<mapsto> \<lparr>resolver = resolver fmt, util = util fmt,
                              defaultHashAlg = JUndefined\<rparr>)\<rparr>)))"

text \<open>\<open>removeFormat\<close> (lines 71-77).\<close>

definition removeFormat :: "int \<Rightarrow> 's IPLDResolver \<Rightarrow> 's IPLDResolver" where
  "removeFormat codec self =
     (case resolvers self codec of
        Some _ \<Rightarrow> self\<lparr>resolvers := (resolvers self)(codec := None)\<rparr>
      | None \<Rightarrow> self)"

text \<open>
  The constructor (lines 16-40). \<open>userOptions\<close> carries \<open>blockService\<close>, \<open>loadFormat\<close>
  (present only when it is a function) and \<open>formats\<close>; \<open>defaultFormats\<close> stands for
  \<open>IPLDResolver.defaultOptions.formats\<close>, three packages outside the repository.
\<close>

record 's constructor_options =
  blockService :: "'s option"
  loadFormat_option :: "(int option \<Rightarrow> js_error + format) option"
  formats :: "format list option"

fun addFormats ::
  "'s externals \<Rightarrow> format list \<Rightarrow> 's IPLDResolver \<Rightarrow> js_error + 's IPLDResolver" where
  "addFormats ex [] self = Inr self"
| "addFormats ex (fmt # rest) self =
     (case addFormat ex fmt self of
        (Inl e, _) \<Rightarrow> Inl e
      | (Inr _, self') \<Rightarrow> addFormats ex rest self')"

definition constructor ::
  "'s externals \<Rightarrow> format list \<Rightarrow> 's constructor_options \<Rightarrow> js_error + 's IPLDResolver" where
  "constructor ex defaultFormats userOptions =
     (case blockService userOptions of
        None \<Rightarrow> Inl (Error ''Missing blockservice'')
      | Some store \<Rightarrow>
          addFormats ex
            (case formats userOptions of None \<Rightarrow> defaultFormats | Some fs \<Rightarrow> fs)
            \<lparr>bs = store, resolvers = Map.empty,
             loadFormat =
               (case loadFormat_option userOptions of
                  None \<Rightarrow> (\<lambda>codec. Inl (Error (''No resolver found for codec \"''
                                                 @ codecName ex codec @ ''\"'')))
                | Some f \<Rightarrow> f),
             loadFormat_calls = []\<rparr>)"

text \<open>
  \<open>_getFormat\<close> (lines 344-360). The codec is a number (as \<open>put\<close> passes it) or a name
  (as \<open>cid.codec\<close> is); a name is upper-cased (codec names are ASCII), its dashes
  replaced by underscores, and
  looked up among the constants of \<open>multicodec\<close>, which gives \<open>undefined\<close> for an
  unknown constant. No entry is ever stored under \<open>undefined\<close>.
\<close>

datatype codec_ref = CodecCode int | CodecName string

definition toUpperCase_char :: "char \<Rightarrow> char" where
  "toUpperCase_char ch =
     (case map_of (zip ''abcdefghijklmnopqrstuvwxyz'' ''ABCDEFGHIJKLMNOPQRSTUVWXYZ'') ch of
        None \<Rightarrow> ch
      | Some upper \<Rightarrow> upper)"

definition constantName :: "string \<Rightarrow> string" where
  "constantName codec =
     map (\<lambda>ch. if ch = CHR ''-'' then CHR ''_'' else ch) (map toUpperCase_char codec)"

definition codec_number :: "'s externals \<Rightarrow> codec_ref \<Rightarrow> int option" where
  "codec_number ex codec =
     (case codec of
        CodecCode n \<Rightarrow> Some n
      | CodecName s \<Rightarrow> mc_constant ex (constantName s))"

definition lookup_resolver :: "'s IPLDResolver \<Rightarrow> int option \<Rightarrow> format option" where
  "lookup_resolver self codec = (case codec of None \<Rightarrow> None | Some n \<Rightarrow> resolvers self n)"

definition getFormat ::
  "'s externals \<Rightarrow> codec_ref \<Rightarrow> 's IPLDResolver \<Rightarrow> (js_error + format) \<times> 's IPLDResolver" where
  "getFormat ex codec self =
     (let codec' = codec_number ex codec
      in case lookup_resolver self codec' of
           Some entry \<Rightarrow> (Inr entry, self)
         | None \<Rightarrow>
             (let self1 = self\<lparr>loadFormat_calls := loadFormat_calls self @ [codec']\<rparr>
              in case loadFormat self codec' of
                   Inl e \<Rightarrow> (Inl e, self1)
                 | Inr fmt \<Rightarrow>
                     (case addFormat ex fmt self1 of
                        (Inl e, self2) \<Rightarrow> (Inl e, self2)
                      | (Inr _, self2) \<Rightarrow> (Inr fmt, self2))))"

section \<open>resolve\<close>

text \<open>
  \<open>resolve(cid, path)\<close> (lines 88-130). The argument checks yield the variables the
  \<open>next\<close> closure captures: the CID to follow (\<open>None\<close> is \<open>null\<close>) and the path.
\<close>

record resolve_state =
  r_cid :: "cid option"
  r_path :: string

definition resolve_init :: "jsval \<Rightarrow> jsval \<Rightarrow> js_error + resolve_state" where
  "resolve_init c path =
     (case c of
        JCid c' \<Rightarrow>
          (case path of
             JStr p \<Rightarrow> Inr \<lparr>r_cid = Some c', r_path = p\<rparr>
           | _ \<Rightarrow> Inl (Error ''`path` argument must be a string''))
      | _ \<Rightarrow> Inl (Error ''`cid` argument must be a CID''))"

text \<open>
  Lines 115-117: the conversion of an old style link. \<open>&&\<close> evaluates \<open>'/' in value\<close>
  only when \<open>Object.keys(value).length === 1\<close>.
\<close>

definition convert_link :: "'s externals \<Rightarrow> jsval \<Rightarrow> js_error + jsval" where
  "convert_link ex v =
     (case Object_keys_length v of
        Inl e \<Rightarrow> Inl e
      | Inr n \<Rightarrow>
          if n = 1 then
            (case slash_in v of
               Inl e \<Rightarrow> Inl e
             | Inr has \<Rightarrow>
                 if has then
                   (case newCID ex (get_slash v) of
                      Inl e \<Rightarrow> Inl e
                    | Inr c \<Rightarrow> Inr (JCid c))
                 else Inr v)
          else Inr v)"

text \<open>\<open>CID.isCID(value) ? value : null\<close>.\<close>

fun cid_or_null :: "jsval \<Rightarrow> cid option" where
  "cid_or_null (JCid c) = Some c"
| "cid_or_null v = None"

text \<open>
  The closure \<open>next\<close> (lines 96-127). \<open>path\<close> is assigned before the link conversion,
  \<open>cid\<close> after it, so a throw of the conversion leaves the new path with the old CID.
\<close>

definition resolve_next ::
  "'s externals \<Rightarrow> 's IPLDResolver \<times> resolve_state
     \<Rightarrow> resolve_result iter \<times> 's IPLDResolver \<times> resolve_state" where
  "resolve_next ex = (\<lambda>(self, rs).
     case r_cid rs of
       None \<Rightarrow> (Done, self, rs)
     | Some c \<Rightarrow>
         (case getFormat ex (CodecName (cid_codec c)) self of
            (Inl e, self') \<Rightarrow> (Reject e, self', rs)
          | (Inr fmt, self') \<Rightarrow>
              (case bs_get ex (bs self') c of
                 Inl e \<Rightarrow> (Reject e, self', rs)
               | Inr blk \<Rightarrow>
                   (case resolve (resolver fmt) (block_data blk) (r_path rs) of
                      Inl e \<Rightarrow> (Reject e, self', rs)
                    | Inr result \<Rightarrow>
                        (let rs1 = rs\<lparr>r_path := remainderPath result\<rparr>
                         in case convert_link ex (val result) of
                              Inl e \<Rightarrow> (Reject e, self', rs1)
                            | Inr v \<Rightarrow>
                                (Yield \<lparr>val = v, remainderPath = remainderPath result\<rparr>,
                                 self', rs1\<lparr>r_cid := cid_or_null v\<rparr>))))))"

section \<open>put\<close>

text \<open>
  \<open>put(nodes, format, userOptions)\<close> (lines 167-211). The checks of \<open>format\<close> come
  first; \<open>options\<close> and \<open>formatImpl\<close> are the variables the generator captures, both
  \<open>undefined\<close> until the first node is reached.
\<close>

record put_state =
  options :: "jsobj option"
  formatImpl :: "format option"

definition put_init :: "jsval \<Rightarrow> js_error + int \<times> put_state" where
  "put_init fmt =
     (case fmt of
        JUndefined \<Rightarrow> Inl (Error ''`put` requires a format'')
      | JNum n \<Rightarrow> Inr (n, \<lparr>options = None, formatImpl = None\<rparr>)
      | _ \<Rightarrow> Inl (Error ''`format` parameter must be number (multicodec)''))"

text \<open>\<open>_store\<close> (lines 362-367).\<close>

definition store ::
  "'s externals \<Rightarrow> cid \<Rightarrow> jsval \<Rightarrow> 's IPLDResolver \<Rightarrow> (js_error + unit) \<times> 's IPLDResolver" where
  "store ex c node self =
     (case getFormat ex (CodecName (cid_codec c)) self of
        (Inl e, self') \<Rightarrow> (Inl e, self')
      | (Inr fmt, self') \<Rightarrow>
          (case serialize (util fmt) node of
             Inl e \<Rightarrow> (Inl e, self')
           | Inr serialized \<Rightarrow>
               (case bs_put ex (bs self') (Block serialized c) of
                  Inl e \<Rightarrow> (Inl e, self')
                | Inr store' \<Rightarrow> (Inr (), self'\<lparr>bs := store'\<rparr>))))"

text \<open>Lines 189-193 and 197-201: the objects \<open>defaultOptions\<close> and \<open>cidOptions\<close>.\<close>

definition defaultOptions :: "format \<Rightarrow> jsobj" where
  "defaultOptions impl =
     [(''hashAlg'', defaultHashAlg impl), (''cidVersion'', JNum 1), (''onlyHash'', JBool False)]"

definition cidOptions :: "jsobj \<Rightarrow> cid_options" where
  "cidOptions opts =
     \<lparr>version = get_prop opts ''cidVersion'',
      hashAlg = get_prop opts ''hashAlg'',
      onlyHash = get_prop opts ''onlyHash''\<rparr>"

text \<open>Lines 187-195: the options are built when the first node is reached.\<close>

definition lazy_options ::
  "'s externals \<Rightarrow> int \<Rightarrow> jsobj option \<Rightarrow> 's IPLDResolver \<times> put_state
     \<Rightarrow> (js_error + unit) \<times> 's IPLDResolver \<times> put_state" where
  "lazy_options ex fmt userOptions = (\<lambda>(self, ps).
     case options ps of
       Some _ \<Rightarrow> (Inr (), self, ps)
     | None \<Rightarrow>
         (case getFormat ex (CodecCode fmt) self of
            (Inl e, self') \<Rightarrow> (Inl e, self', ps)
          | (Inr impl, self') \<Rightarrow>
              (Inr (), self',
               \<lparr>options = Some (mergeOptions (defaultOptions impl) userOptions),
                formatImpl = Some impl\<rparr>)))"

text \<open>The body of the generator's loop for one node (lines 183-207).\<close>

definition put_node ::
  "'s externals \<Rightarrow> int \<Rightarrow> jsobj option \<Rightarrow> jsval \<Rightarrow> 's IPLDResolver \<times> put_state
     \<Rightarrow> (js_error + cid) \<times> 's IPLDResolver \<times> put_state" where
  "put_node ex fmt userOptions node st =
     (case lazy_options ex fmt userOptions st of
        (Inl e, self1, ps1) \<Rightarrow> (Inl e, self1, ps1)
      | (Inr _, self1, ps1) \<Rightarrow>
          (case (options ps1, formatImpl ps1) of
             (Some opts, Some impl) \<Rightarrow>
               (case util_cid (util impl) node (cidOptions opts) of
                  Inl e \<Rightarrow> (Inl e, self1, ps1)
                | Inr c \<Rightarrow>
                    if \<not> truthy (get_prop opts ''onlyHash'') then
                      (case store ex c node self1 of
                         (Inl e, self2) \<Rightarrow> (Inl e, self2, ps1)
                       | (Inr _, self2) \<Rightarrow> (Inr c, self2, ps1))
                    else (Inr c, self1, ps1))
           | _ \<Rightarrow> (Inl (TypeError ''Cannot read property of undefined''), self1, ps1)))"

text \<open>
  The generator consumed to its end: the CIDs yielded, the error that ended it (if
  any), and the state it leaves. A throw ends a generator for good.
\<close>

fun put_all ::
  "'s externals \<Rightarrow> int \<Rightarrow> jsobj option \<Rightarrow> jsval list \<Rightarrow> 's IPLDResolver \<times> put_state
     \<Rightarrow> cid list \<times> js_error option \<times> 's IPLDResolver \<times> put_state" where
  "put_all ex fmt userOptions [] st = ([], None, st)"
| "put_all ex fmt userOptions (node # nodes) st =
     (case put_node ex fmt userOptions node st of
        (Inl e, st1) \<Rightarrow> ([], Some e, st1)
      | (Inr c, st1) \<Rightarrow>
          (case put_all ex fmt userOptions nodes st1 of
             (cs, r, st2) \<Rightarrow> (c # cs, r, st2)))"

section \<open>remove\<close>

text \<open>
  The closure \<open>next\<close> of \<open>remove(cids)\<close> (lines 228-241). \<open>cids\<close> is the caller's array,
  shortened by \<open>shift\<close> before the deletion is attempted.
\<close>

definition remove_next ::
  "'s externals \<Rightarrow> 's IPLDResolver \<times> cid list \<Rightarrow> cid iter \<times> 's IPLDResolver \<times> cid list" where
  "remove_next ex = (\<lambda>(self, cids).
     case cids of
       [] \<Rightarrow> (Done, self, cids)
     | c # rest \<Rightarrow>
         (case bs_delete ex (bs self) c of
            Inl e \<Rightarrow> (Reject e, self, rest)
          | Inr store' \<Rightarrow> (Yield c, self\<lparr>bs := store'\<rparr>, rest)))"

text \<open>
  Modelled from the spec: \<open>fancyIterator\<close> of \<open>./util\<close>, which turns \<open>next\<close> into the
  sequence returned, is not among the sources. By the spec the sequence is pull-driven,
  one call of \<open>next\<close> per item, and its first failure ends it; so consuming it to its
  end (as \<open>for await\<close> does) calls \<open>next\<close> until it reports done or rejects. The
  result holds the CIDs yielded, the error that ended the sequence (if any), the
  instance and what is left of the array.
\<close>

function remove_all ::
  "'s externals \<Rightarrow> 's IPLDResolver \<times> cid list
     \<Rightarrow> cid list \<times> js_error option \<times> 's IPLDResolver \<times> cid list" where
  "remove_all ex (self, cids) =
     (case remove_next ex (self, cids) of
        (Done, st) \<Rightarrow> ([], None, st)
      | (Reject e, st) \<Rightarrow> ([], Some e, st)
      | (Yield c, st) \<Rightarrow>
          (case remove_all ex st of (cs, r, st') \<Rightarrow> (c # cs, r, st')))"
  by pat_completeness auto
termination
  by (relation "measure (\<lambda>(ex, self, cids). length cids)")
     (auto simp: remove_next_def split: list.splits sum.splits)

section \<open>tree\<close>

text \<open>
  \<open>tree(cid, offsetPath, userOptions)\<close> (lines 255-339). The second argument is absent,
  a string or an options object. \<open>tree_config\<close> holds what \<open>next\<close> only reads
  (\<open>offsetPath\<close>, \<open>options\<close>), \<open>tree_state\<close> the variables it assigns: \<open>treePaths\<close>,
  \<open>block\<close>, \<open>queue\<close> and \<open>basePath\<close> (\<open>block\<close> and \<open>basePath\<close> start \<open>undefined\<close>).
\<close>

datatype offset_arg = OffsetUndefined | OffsetString string | OffsetObject jsobj

record tree_config =
  offsetPath :: string
  tree_options :: jsobj

record tree_state =
  treePaths :: "string list"
  tree_block :: "block option"
  queue :: "(cid \<times> string) list"
  basePath :: "string option"

text \<open>Lines 256-265 and the initial values of lines 283-291.\<close>

definition tree_init :: "cid \<Rightarrow> offset_arg \<Rightarrow> jsobj option \<Rightarrow> tree_config \<times> tree_state" where
  "tree_init c offsetPath0 userOptions0 =
     (let (userOptions, offsetPath1) =
            (case offsetPath0 of
               OffsetObject obj \<Rightarrow> (Some obj, OffsetUndefined)
             | _ \<Rightarrow> (userOptions0, offsetPath0));
          offsetPath2 =
            (case offsetPath1 of
               OffsetString s \<Rightarrow> (if s \<noteq> [] then s else [])
             | _ \<Rightarrow> [])
      in (\<lparr>offsetPath = offsetPath2,
           tree_options = mergeOptions [(''recursive'', JBool False)] userOptions\<rparr>,
          \<lparr>treePaths = [], tree_block = None, queue = [(c, [])], basePath = None\<rparr>))"

text \<open>\<open>_maybeCID\<close> (lines 389-397).\<close>

definition maybeCID :: "'s externals \<Rightarrow> jsval \<Rightarrow> js_error + cid option" where
  "maybeCID ex link =
     (case cid_or_null link of
        Some c \<Rightarrow> Inr (Some c)
      | None \<Rightarrow>
          if truthy link \<and> get_slash link \<noteq> JUndefined then
            (case newCID ex (get_slash link) of
               Inl e \<Rightarrow> Inl e
             | Inr c \<Rightarrow> Inr (Some c))
          else Inr None)"

text \<open>
  \<open>maybeRecurse\<close> (lines 268-280). Reading \<open>block.cid\<close> while \<open>block\<close> is still
  \<open>undefined\<close> throws a TypeError.
\<close>

definition maybeRecurse ::
  "'s externals \<Rightarrow> block option \<Rightarrow> string option \<Rightarrow> 's IPLDResolver
     \<Rightarrow> (js_error + cid option) \<times> 's IPLDResolver" where
  "maybeRecurse ex blk treePath self =
     (case blk of
        None \<Rightarrow> (Inl (TypeError ''Cannot read property 'cid' of undefined''), self)
      | Some b \<Rightarrow>
          (case getFormat ex (CodecName (cid_codec (block_cid b))) self of
             (Inl e, self') \<Rightarrow> (Inl e, self')
           | (Inr fmt, self') \<Rightarrow>
               (case isLink (resolver fmt) (block_data b) treePath of
                  Inl e \<Rightarrow> (Inl e, self')
                | Inr link \<Rightarrow>
                    if truthy link then
                      (case maybeCID ex link of
                         Inl e \<Rightarrow> (Inl e, self')
                       | Inr r \<Rightarrow> (Inr r, self'))
                    else (Inr None, self'))))"

text \<open>
  Lines 302-309: with no path left and a queued node, the node is taken from the queue
  and its paths are fetched. The queue is shortened before anything can fail.
\<close>

definition tree_fill ::
  "'s externals \<Rightarrow> 's IPLDResolver \<times> tree_state
     \<Rightarrow> (js_error + unit) \<times> 's IPLDResolver \<times> tree_state" where
  "tree_fill ex = (\<lambda>(self, ts).
     case (treePaths ts, queue ts) of
       ([], (c, base) # rest) \<Rightarrow>
         (let ts1 = ts\<lparr>queue := rest, basePath := Some base\<rparr>
          in case getFormat ex (CodecName (cid_codec c)) self of
               (Inl e, self') \<Rightarrow> (Inl e, self', ts1)
             | (Inr fmt, self') \<Rightarrow>
                 (case bs_get ex (bs self') c of
                    Inl e \<Rightarrow> (Inl e, self', ts1)
                  | Inr b \<Rightarrow>
                      (let ts2 = ts1\<lparr>tree_block := Some b\<rparr>
                       in case tree (resolver fmt) (block_data b) of
                            Inl e \<Rightarrow> (Inl e, self', ts2)
                          | Inr paths \<Rightarrow>
                              (Inr (), self', ts2\<lparr>treePaths := treePaths ts2 @ paths\<rparr>))))
     | _ \<Rightarrow> (Inr (), self, ts))"

text \<open>
  Lines 311-320: the next candidate. \<open>shift\<close> on an empty array gives \<open>undefined\<close>,
  which the concatenation turns into the text \<open>undefined\<close>. The result is \<open>fullPath\<close>.
\<close>

definition tree_candidate ::
  "'s externals \<Rightarrow> tree_config \<Rightarrow> 's IPLDResolver \<times> tree_state
     \<Rightarrow> (js_error + string) \<times> 's IPLDResolver \<times> tree_state" where
  "tree_candidate ex cfg = (\<lambda>(self, ts).
     let treePath = (case treePaths ts of [] \<Rightarrow> None | p # _ \<Rightarrow> Some p);
         ts1 = ts\<lparr>treePaths := drop 1 (treePaths ts)\<rparr>;
         fullPath = js_string (basePath ts1) @ js_string treePath
     in if truthy (get_prop (tree_options cfg) ''recursive'') then
          (case maybeRecurse ex (tree_block ts1) treePath self of
             (Inl e, self') \<Rightarrow> (Inl e, self', ts1)
           | (Inr None, self') \<Rightarrow> (Inr fullPath, self', ts1)
           | (Inr (Some c), self') \<Rightarrow>
               (Inr fullPath, self', ts1\<lparr>queue := queue ts1 @ [(c, fullPath @ ''/'')]\<rparr>))
        else (Inr fullPath, self, ts1))"

text \<open>
  The closure \<open>next\<close> (lines 293-336). It calls itself for a candidate it does not
  return, and with links that lead back to a node already visited it never returns;
  the first argument bounds the number of calls, and \<open>None\<close> means the bound was reached.
\<close>

fun tree_next ::
  "nat \<Rightarrow> 's externals \<Rightarrow> tree_config \<Rightarrow> 's IPLDResolver \<times> tree_state
     \<Rightarrow> (string iter \<times> 's IPLDResolver \<times> tree_state) option" where
  "tree_next 0 ex cfg st = None"
| "tree_next (Suc n) ex cfg st =
     (if treePaths (snd st) = [] \<and> queue (snd st) = [] then Some (Done, st)
      else
        (case tree_fill ex st of
           (Inl e, st1) \<Rightarrow> Some (Reject e, st1)
         | (Inr _, st1) \<Rightarrow>
             (case tree_candidate ex cfg st1 of
                (Inl e, st2) \<Rightarrow> Some (Reject e, st2)
              | (Inr fullPath, st2) \<Rightarrow>
                  if startsWith fullPath (offsetPath cfg)
                     \<and> length fullPath > length (offsetPath cfg)
                  then Some (Yield (if length (offsetPath cfg) > 0
                                    then slice fullPath (length (offsetPath cfg) + 1)
                                    else fullPath), st2)
                  else tree_next n ex cfg st2)))"

section \<open>Auxiliary notions and example instances\<close>

text \<open>
  The store reached by deleting the given CIDs one after the other, when every one of
  these deletions succeeds.
\<close>

fun deleted_in_order :: "'s externals \<Rightarrow> 's \<Rightarrow> cid list \<Rightarrow> 's option" where
  "deleted_in_order ex s [] = Some s"
| "deleted_in_order ex s (c # cs) =
     (case bs_delete ex s c of
        Inl e \<Rightarrow> None
      | Inr s' \<Rightarrow> deleted_in_order ex s' cs)"

text \<open>
  A small instance to run the functions on: block stores are association lists, the
  only codec is \<open>dag-cbor\<close> (code 113, \<open>raw\<close> has code 85), a CID string is \<open>z\<close> followed
  by the digest, and a block's bytes decode to a legacy link (\<open>/\<close> followed by the CID
  string), to a \<open>dag-cbor\<close> CID (\<open>@\<close> followed by the digest), to a \<open>raw\<close> CID (\<open>%\<close>
  followed by the digest), to \<open>null\<close> or to the text itself; the block \<open>corrupt\<close> does not
  decode. Every node has the paths \<open>a\<close>, \<open>a/b\<close> and \<open>c\<close>, and in the block \<open>node\<close> the path
  \<open>c\<close> is a link to the CID with digest \<open>leaf\<close>.
\<close>

definition example_newCID :: "jsval \<Rightarrow> js_error + cid" where
  "example_newCID v =
     (case v of
        JCid c \<Rightarrow> Inr c
      | JStr s \<Rightarrow>
          (case s of
             [] \<Rightarrow> Inl (Error ''invalid cid'')
           | ch # h \<Rightarrow>
               if ch = CHR ''z'' then Inr (CID 1 ''dag-cbor'' h)
               else Inl (Error ''invalid cid''))
      | _ \<Rightarrow> Inl (Error ''invalid cid''))"

definition example_externals :: "(cid \<times> buffer) list externals" where
  "example_externals =
     \<lparr>mc_getCode = (\<lambda>name. if name = ''dag-cbor'' then Some 113
                           else if name = ''raw'' then Some 85 else None),
      mc_constant = (\<lambda>name. if name = ''DAG_CBOR'' then Some 113
                            else if name = ''RAW'' then Some 85 else None),
      mc_print = (\<lambda>code. if code = 113 then Some ''dag-cbor''
                         else if code = 85 then Some ''raw'' else None),
      newCID = example_newCID,
      bs_get = (\<lambda>s c. case map_of s c of
                          None \<Rightarrow> Inl (Error ''Not Found'')
                        | Some d \<Rightarrow> Inr (Block d c)),
      bs_put = (\<lambda>s b. Inr ((block_cid b, block_data b) # s)),
      bs_delete = (\<lambda>s c. if map_of s c = None then Inl (Error ''Not Found'')
                           else Inr (filter (\<lambda>kv. fst kv \<noteq> c) s))\<rparr>"

definition example_decode :: "buffer \<Rightarrow> jsval" where
  "example_decode d =
     (case d of
        [] \<Rightarrow> JStr []
      | ch # rest \<Rightarrow>
          if ch = CHR ''/'' then JObj [(''/'', JStr rest)]
          else if ch = CHR ''@'' then JCid (CID 1 ''dag-cbor'' rest)
          else if ch = CHR ''%'' then JCid (CID 1 ''raw'' rest)
          else if d = ''null'' then JNull
          else JStr d)"

definition example_resolver :: format_resolver where
  "example_resolver =
     \<lparr>multicodec = ''dag-cbor'',
      resolve = (\<lambda>d path. if d = ''corrupt'' then Inl (Error ''malformed block'')
                          else Inr \<lparr>val = example_decode d, remainderPath = path\<rparr>),
      tree = (\<lambda>d. Inr [''a'', ''a/b'', ''c'']),
      isLink = (\<lambda>d path. if d = ''node'' \<and> path = Some ''c''
                          then Inr (JCid (CID 1 ''dag-cbor'' ''leaf''))
                          else Inr (JBool False))\<rparr>"

definition example_util :: format_util where
  "example_util =
     \<lparr>serialize = (\<lambda>node. case node of JStr s \<Rightarrow> Inr s | _ \<Rightarrow> Inl (Error ''not serializable'')),
      deserialize = (\<lambda>d. Inr (JStr d)),
      util_cid = (\<lambda>node co.
        case node of
          JStr s \<Rightarrow>
            Inr (CID (case version co of JNum n \<Rightarrow> n | _ \<Rightarrow> 0) ''dag-cbor''
                   ((case hashAlg co of
                       JNum n \<Rightarrow> if n = 18 then ''sha2-256:'' else ''other:''
                     | _ \<Rightarrow> ''none:'') @ s))
        | _ \<Rightarrow> Inl (Error ''not serializable''))\<rparr>"

definition example_format :: format where
  "example_format =
     \<lparr>resolver = example_resolver, util = example_util, defaultHashAlg = JNum 18\<rparr>"

definition example_entry :: format where
  "example_entry =
     \<lparr>resolver = example_resolver, util = example_util, defaultHashAlg = JUndefined\<rparr>"

definition no_loader :: "int option \<Rightarrow> js_error + format" where
  "no_loader codec =
     Inl (Error (''No resolver found for codec \"'' @ codecName example_externals codec @ ''\"''))"

definition example_instance :: "(cid \<times> buffer) list \<Rightarrow> (cid \<times> buffer) list IPLDResolver" where
  "example_instance blocks =
     \<lparr>bs = blocks, resolvers = [113 \<mapsto> example_entry], loadFormat = no_loader,
      loadFormat_calls = []\<rparr>"

definition example_loader :: "int option \<Rightarrow> js_error + format" where
  "example_loader codec =
     (if codec = Some 113 then Inr example_format else Inl (Error ''no such plugin''))"

definition example_lazy_instance ::
  "(cid \<times> buffer) list \<Rightarrow> (cid \<times> buffer) list IPLDResolver" where
  "example_lazy_instance blocks =
     \<lparr>bs = blocks, resolvers = Map.empty, loadFormat = example_loader, loadFormat_calls = []\<rparr>"

lemmas example_defs =
  example_externals_def example_format_def example_entry_def example_resolver_def
  example_util_def example_instance_def example_lazy_instance_def example_loader_def
  no_loader_def example_newCID_def example_decode_def


section \<open>Basic facts\<close>

lemma addFormat_bs: "bs (snd (addFormat ex fmt self)) = bs self"
  by (simp add: addFormat_def split: option.splits)

lemma getFormat_bs: "bs (snd (getFormat ex codec self)) = bs self"
  by (auto simp: getFormat_def addFormat_def Let_def split: option.splits sum.splits prod.splits)

lemma getFormat_bs': "getFormat ex codec self = (r, self') \<Longrightarrow> bs self' = bs self"
  using getFormat_bs [of ex codec self] by simp

lemma getFormat_hit:
  "lookup_resolver self (codec_number ex codec) = Some entry \<Longrightarrow>
   getFormat ex codec self = (Inr entry, self)"
  by (simp add: getFormat_def)

lemma addFormat_loadFormat: "loadFormat (snd (addFormat ex fmt self)) = loadFormat self"
  by (simp add: addFormat_def split: option.splits)

lemma addFormats_loadFormat:
  "addFormats ex fs self = Inr self' \<Longrightarrow> loadFormat self' = loadFormat self"
proof (induction fs arbitrary: self)
  case Nil
  then show ?case by simp
next
  case (Cons f fs)
  obtain r s1 where a: "addFormat ex f self = (r, s1)" by (cases "addFormat ex f self")
  with Cons.prems obtain u where "r = Inr u" "addFormats ex fs s1 = Inr self'"
    by (cases r) auto
  with Cons.IH have "loadFormat self' = loadFormat s1" by simp
  moreover from a addFormat_loadFormat [of ex f self] have "loadFormat s1 = loadFormat self" by simp
  ultimately show ?case by simp
qed

lemma constructor_default_loader:
  assumes "constructor ex dfs opts = Inr self" and "loadFormat_option opts = None"
  shows "loadFormat self =
           (\<lambda>codec. Inl (Error (''No resolver found for codec \"'' @ codecName ex codec @ ''\"'')))"
  using assms by (auto simp: constructor_def split: option.splits dest!: addFormats_loadFormat)

section \<open>Facts about the registry\<close>

text \<open>
  C5. When the codec of a format is already registered, \<open>addFormat\<close> throws the error
  "Resolver already exists for codec" naming that codec, and the instance it leaves is
  the one it found: the entry of that codec and of every other codec is as before.
\<close>

theorem addFormat_duplicate:
  assumes "mc_getCode ex (multicodec (resolver fmt)) = Some codec"
      and "resolvers self codec = Some entry"
  shows "addFormat ex fmt self =
           (Inl (Error (''Resolver already exists for codec \"''
                         @ codecName ex (Some codec) @ ''\"'')), self)"
  using assms by (simp add: addFormat_def)

text \<open>
  What does hold of \<open>_getFormat\<close>: a lookup of a registered codec returns the registered
  entry and leaves the instance as it was, so a repeated lookup returns the same entry
  and the loader is not invoked; after a miss that the loader answered with a format of
  the codec asked for, the loader has been invoked once and the next lookup returns the
  entry built from the format's \<open>resolver\<close> and \<open>util\<close>; on an instance constructed
  without a loader, the lookup of an unregistered codec fails with
  "No resolver found for codec".
\<close>

lemma getFormat_registered_stable:
  "(lookup_resolver self (codec_number ex codec) = Some entry \<longrightarrow>
      getFormat ex codec self = (Inr entry, self)
      \<and> getFormat ex codec (snd (getFormat ex codec self)) = getFormat ex codec self
      \<and> loadFormat_calls (snd (getFormat ex codec self)) = loadFormat_calls self)
   \<and> (lookup_resolver self (codec_number ex codec) = None
        \<and> loadFormat self (codec_number ex codec) = Inr fmt
        \<and> codec_number ex codec = Some n
        \<and> mc_getCode ex (multicodec (resolver fmt)) = Some n \<longrightarrow>
      fst (getFormat ex codec self) = Inr fmt
      \<and> loadFormat_calls (snd (getFormat ex codec self)) = loadFormat_calls self @ [Some n]
      \<and> getFormat ex codec (snd (getFormat ex codec self)) =
          (Inr \<lparr>resolver = resolver fmt, util = util fmt, defaultHashAlg = JUndefined\<rparr>,
           snd (getFormat ex codec self)))
   \<and> (lookup_resolver self (codec_number ex codec) = None
        \<and> constructor ex dfs opts = Inr self0 \<and> loadFormat_option opts = None
        \<and> loadFormat self = loadFormat self0 \<longrightarrow>
      fst (getFormat ex codec self) =
        Inl (Error (''No resolver found for codec \"''
                     @ codecName ex (codec_number ex codec) @ ''\"'')))"
proof (intro conjI impI)
  assume "lookup_resolver self (codec_number ex codec) = Some entry"
  then have h: "getFormat ex codec self = (Inr entry, self)" by (rule getFormat_hit)
  show "getFormat ex codec self = (Inr entry, self)" by (rule h)
  show "getFormat ex codec (snd (getFormat ex codec self)) = getFormat ex codec self"
    by (simp add: h)
  show "loadFormat_calls (snd (getFormat ex codec self)) = loadFormat_calls self"
    by (simp add: h)
next
  assume a: "lookup_resolver self (codec_number ex codec) = None
        \<and> loadFormat self (codec_number ex codec) = Inr fmt
        \<and> codec_number ex codec = Some n
        \<and> mc_getCode ex (multicodec (resolver fmt)) = Some n"
  then have cn: "codec_number ex codec = Some n"
    and ld: "loadFormat self (Some n) = Inr fmt"
    and lk: "lookup_resolver self (Some n) = None" by auto
  from lk have none: "resolvers self n = None" by (simp add: lookup_resolver_def)
  from a cn ld lk none have g: "getFormat ex codec self =
      (Inr fmt, self\<lparr>loadFormat_calls := loadFormat_calls self @ [Some n],
                     resolvers := (resolvers self)
                       (n \<mapsto> \<lparr>resolver = resolver fmt, util = util fmt,
                                defaultHashAlg = JUndefined\<rparr>)\<rparr>)"
    by (simp add: getFormat_def addFormat_def Let_def)
  show "fst (getFormat ex codec self) = Inr fmt" by (simp add: g)
  show "loadFormat_calls (snd (getFormat ex codec self)) = loadFormat_calls self @ [Some n]"
    by (simp add: g)
  show "getFormat ex codec (snd (getFormat ex codec self)) =
          (Inr \<lparr>resolver = resolver fmt, util = util fmt, defaultHashAlg = JUndefined\<rparr>,
           snd (getFormat ex codec self))"
    using cn by (intro getFormat_hit) (simp add: g lookup_resolver_def)
next
  assume a: "lookup_resolver self (codec_number ex codec) = None
        \<and> constructor ex dfs opts = Inr self0 \<and> loadFormat_option opts = None
        \<and> loadFormat self = loadFormat self0"
  then have none: "lookup_resolver self (codec_number ex codec) = None"
    and c: "constructor ex dfs opts = Inr self0" and l: "loadFormat_option opts = None"
    and same: "loadFormat self = loadFormat self0" by auto
  have "loadFormat self (codec_number ex codec) =
      Inl (Error (''No resolver found for codec \"''
                   @ codecName ex (codec_number ex codec) @ ''\"''))"
    by (simp only: same constructor_default_loader [OF c l])
  with none show "fst (getFormat ex codec self) =
        Inl (Error (''No resolver found for codec \"''
                     @ codecName ex (codec_number ex codec) @ ''\"''))"
    by (simp add: getFormat_def Let_def)
qed

lemma example_constructor:
  "constructor example_externals []
     \<lparr>blockService = Some blocks, loadFormat_option = None, formats = Some [example_format]\<rparr>
   = Inr (example_instance blocks)"
  by (simp add: constructor_def addFormat_def example_defs fun_eq_iff)

lemma example_lazy_constructor:
  "constructor example_externals []
     \<lparr>blockService = Some blocks, loadFormat_option = Some example_loader, formats = Some []\<rparr>
   = Inr (example_lazy_instance blocks)"
  by (simp add: constructor_def example_defs)

theorem addFormat_duplicate_witness:
  "mc_getCode example_externals (multicodec (resolver example_format)) = Some 113
   \<and> resolvers (example_instance []) 113 = Some example_entry
   \<and> addFormat example_externals example_format (example_instance []) =
       (Inl (Error ''Resolver already exists for codec \"dag-cbor\"''), example_instance [])"
  using addFormat_duplicate [where ex = example_externals and fmt = example_format
      and self = "example_instance []" and codec = 113 and entry = example_entry]
  by (simp add: example_defs codecName_def)

lemma getFormat_registered_stable_example:
  "lookup_resolver (example_instance [])
       (codec_number example_externals (CodecName ''dag-cbor'')) = Some example_entry
   \<and> getFormat example_externals (CodecName ''dag-cbor'') (example_instance []) =
       (Inr example_entry, example_instance [])
   \<and> lookup_resolver (example_lazy_instance [])
       (codec_number example_externals (CodecCode 113)) = None
   \<and> loadFormat (example_lazy_instance []) (codec_number example_externals (CodecCode 113)) =
       Inr example_format
   \<and> mc_getCode example_externals (multicodec (resolver example_format)) = Some 113
   \<and> fst (getFormat example_externals (CodecCode 113) (example_lazy_instance [])) =
       Inr example_format
   \<and> loadFormat_calls
        (snd (getFormat example_externals (CodecCode 113) (example_lazy_instance []))) =
       [Some 113]
   \<and> getFormat example_externals (CodecCode 113)
        (snd (getFormat example_externals (CodecCode 113) (example_lazy_instance []))) =
       (Inr example_entry,
        snd (getFormat example_externals (CodecCode 113) (example_lazy_instance [])))
   \<and> lookup_resolver (example_instance []) (codec_number example_externals (CodecCode 85)) = None
   \<and> constructor example_externals []
        \<lparr>blockService = Some [], loadFormat_option = None, formats = Some [example_format]\<rparr>
       = Inr (example_instance [])
   \<and> fst (getFormat example_externals (CodecCode 85) (example_instance [])) =
       Inl (Error ''No resolver found for codec \"raw\"'')"
proof -
  have l1: "lookup_resolver (example_instance [])
       (codec_number example_externals (CodecName ''dag-cbor'')) = Some example_entry"
    by (simp add: lookup_resolver_def codec_number_def constantName_def toUpperCase_char_def
        example_instance_def example_externals_def)
  have l2: "lookup_resolver (example_lazy_instance [])
       (codec_number example_externals (CodecCode 113)) = None"
    by (simp add: lookup_resolver_def codec_number_def example_lazy_instance_def)
  have l3: "loadFormat (example_lazy_instance [])
       (codec_number example_externals (CodecCode 113)) = Inr example_format"
    by (simp add: codec_number_def example_lazy_instance_def example_loader_def)
  have l4: "codec_number example_externals (CodecCode 113) = Some 113"
    by (simp add: codec_number_def)
  have l5: "mc_getCode example_externals (multicodec (resolver example_format)) = Some 113"
    by (simp add: example_externals_def example_format_def example_resolver_def)
  have l6: "lookup_resolver (example_instance [])
       (codec_number example_externals (CodecCode 85)) = None"
    by (simp add: lookup_resolver_def codec_number_def example_instance_def)
  have l7: "codecName example_externals (codec_number example_externals (CodecCode 85)) = ''raw''"
    by (simp add: codecName_def codec_number_def example_externals_def)
  note c = example_constructor [of "[]"]
  from getFormat_registered_stable [where self = "example_instance []"
      and ex = example_externals and codec = "CodecName ''dag-cbor''" and entry = example_entry]
    l1
  have p1: "getFormat example_externals (CodecName ''dag-cbor'') (example_instance []) =
       (Inr example_entry, example_instance [])" by blast
  from getFormat_registered_stable [where self = "example_lazy_instance []"
      and ex = example_externals and codec = "CodecCode 113" and fmt = example_format
      and n = 113] l2 l3 l4 l5
  have p2: "fst (getFormat example_externals (CodecCode 113) (example_lazy_instance [])) =
       Inr example_format
   \<and> loadFormat_calls
        (snd (getFormat example_externals (CodecCode 113) (example_lazy_instance []))) =
       loadFormat_calls (example_lazy_instance []) @ [Some 113]
   \<and> getFormat example_externals (CodecCode 113)
        (snd (getFormat example_externals (CodecCode 113) (example_lazy_instance []))) =
       (Inr \<lparr>resolver = resolver example_format, util = util example_format,
             defaultHashAlg = JUndefined\<rparr>,
        snd (getFormat example_externals (CodecCode 113) (example_lazy_instance [])))"
    by blast
  from getFormat_registered_stable [where self = "example_instance []"
      and ex = example_externals and codec = "CodecCode 85" and dfs = "[]"
      and opts = "\<lparr>blockService = Some [], loadFormat_option = None,
                     formats = Some [example_format]\<rparr>"
      and ?self0.0 = "example_instance []"] l6 c
  have p3: "fst (getFormat example_externals (CodecCode 85) (example_instance [])) =
        Inl (Error (''No resolver found for codec \"''
           @ codecName example_externals (codec_number example_externals (CodecCode 85))
           @ ''\"''))"
    by simp
  have e: "\<lparr>resolver = resolver example_format, util = util example_format,
             defaultHashAlg = JUndefined\<rparr> = example_entry"
    by (simp add: example_format_def example_entry_def)
  have calls: "loadFormat_calls (example_lazy_instance []) = []"
    by (simp add: example_lazy_instance_def)
  from p3 l7 have p3': "fst (getFormat example_externals (CodecCode 85) (example_instance [])) =
       Inl (Error ''No resolver found for codec \"raw\"'')" by simp
  from l1 p1 l2 l3 l5 p2 l6 c p3' show ?thesis by (simp add: e calls)
qed


text \<open>
  C6. On an instance whose loader supplies the format of codec 113 (declaring
  \<open>defaultHashAlg\<close> 18), the lookup that misses returns the loader's object, and the
  lookup after it returns the registry entry, an object with \<open>resolver\<close> and \<open>util\<close>
  only: the two lookups do not return the same format object. The loader is invoked
  once.
\<close>

theorem getFormat_after_load_returns_other_object:
  "fst (getFormat example_externals (CodecCode 113) (example_lazy_instance [])) =
     Inr example_format
   \<and> fst (getFormat example_externals (CodecCode 113)
          (snd (getFormat example_externals (CodecCode 113) (example_lazy_instance [])))) =
     Inr example_entry
   \<and> defaultHashAlg example_format = JNum 18
   \<and> defaultHashAlg example_entry = JUndefined
   \<and> loadFormat_calls (snd (getFormat example_externals (CodecCode 113)
          (snd (getFormat example_externals (CodecCode 113) (example_lazy_instance []))))) =
     [Some 113]"
  by (simp add: getFormat_def addFormat_def lookup_resolver_def codec_number_def Let_def
      example_defs)

section \<open>Facts about resolve: old style links\<close>

lemma convert_link_null:
  "convert_link ex JNull = Inl (TypeError ''Cannot convert undefined or null to object'')"
  by (simp add: convert_link_def)

lemma convert_link_cid: "convert_link ex (JCid c) = Inr (JCid c)"
  by (simp add: convert_link_def)

lemma convert_link_legacy:
  "convert_link ex (JObj [(''/'', x)]) =
     (case newCID ex x of Inl e \<Rightarrow> Inl e | Inr c \<Rightarrow> Inr (JCid c))"
  by (simp add: convert_link_def get_prop_def)

lemma resolve_next_step:
  assumes "getFormat ex (CodecName (cid_codec c0)) self = (Inr fmt, self')"
      and "bs_get ex (bs self') c0 = Inr blk"
      and "resolve (resolver fmt) (block_data blk) p = Inr result"
  shows "resolve_next ex (self, \<lparr>r_cid = Some c0, r_path = p\<rparr>) =
     (case convert_link ex (val result) of
        Inl e \<Rightarrow> (Reject e, self', \<lparr>r_cid = Some c0, r_path = remainderPath result\<rparr>)
      | Inr v \<Rightarrow>
          (Yield \<lparr>val = v, remainderPath = remainderPath result\<rparr>, self',
           \<lparr>r_cid = cid_or_null v, r_path = remainderPath result\<rparr>))"
  using assms by (simp add: resolve_next_def split: sum.splits)

text \<open>
  C1, as the claim states it, fails: a step whose resolved value is the single-key
  mapping \<open>{"/": "hello"}\<close> is not emitted with a CID; \<open>new CID\<close> throws on the content and
  the step is rejected with that error.
\<close>

theorem resolve_next_legacy_link_counterexample:
  "resolve (resolver example_entry) ''/hello'' [] =
     Inr \<lparr>val = JObj [(''/'', JStr ''hello'')], remainderPath = []\<rparr>
   \<and> fst (resolve_next example_externals
          (example_instance [(CID 1 ''dag-cbor'' ''root'', ''/hello'')],
           \<lparr>r_cid = Some (CID 1 ''dag-cbor'' ''root''), r_path = []\<rparr>)) =
       Reject (Error ''invalid cid'')"
  by (simp add: resolve_next_def getFormat_def lookup_resolver_def codec_number_def
      constantName_def toUpperCase_char_def convert_link_def get_prop_def example_defs)

text \<open>
  C1, amended. Let a step resolve, within the node of the current CID, a value that is
  a single-key mapping with key \<open>/\<close> and content \<open>x\<close>. If \<open>new CID(x)\<close> gives the CID
  \<open>c\<close>, the step emits \<open>c\<close> with the remainder path and \<open>c\<close> becomes the CID to follow;
  this is, result and state, the step of a node whose codec returns \<open>c\<close> itself for the
  same path, so all later steps agree too. If \<open>new CID(x)\<close> throws, the step is
  rejected with that error and nothing is emitted.
\<close>

theorem resolve_next_legacy_link:
  assumes "getFormat ex (CodecName (cid_codec c0)) self = (Inr fmt, self')"
      and "bs_get ex (bs self') c0 = Inr blk"
      and "resolve (resolver fmt) (block_data blk) p =
             Inr \<lparr>val = JObj [(''/'', x)], remainderPath = rest\<rparr>"
  shows "(newCID ex x = Inr c \<longrightarrow>
            resolve_next ex (self, \<lparr>r_cid = Some c0, r_path = p\<rparr>) =
              (Yield \<lparr>val = JCid c, remainderPath = rest\<rparr>, self',
               \<lparr>r_cid = Some c, r_path = rest\<rparr>)
            \<and> (getFormat ex (CodecName (cid_codec c1)) self = (Inr fmt1, self')
                 \<and> bs_get ex (bs self') c1 = Inr blk1
                 \<and> resolve (resolver fmt1) (block_data blk1) p =
                     Inr \<lparr>val = JCid c, remainderPath = rest\<rparr> \<longrightarrow>
               resolve_next ex (self, \<lparr>r_cid = Some c1, r_path = p\<rparr>) =
                 resolve_next ex (self, \<lparr>r_cid = Some c0, r_path = p\<rparr>)))
         \<and> (newCID ex x = Inl e \<longrightarrow>
            resolve_next ex (self, \<lparr>r_cid = Some c0, r_path = p\<rparr>) =
              (Reject e, self', \<lparr>r_cid = Some c0, r_path = rest\<rparr>))"
proof -
  note step = resolve_next_step [OF assms]
  have legacy: "resolve_next ex (self, \<lparr>r_cid = Some c0, r_path = p\<rparr>) =
      (Yield \<lparr>val = JCid c, remainderPath = rest\<rparr>, self', \<lparr>r_cid = Some c, r_path = rest\<rparr>)"
    if "newCID ex x = Inr c"
    using that by (simp add: step convert_link_legacy)
  have native: "resolve_next ex (self, \<lparr>r_cid = Some c1, r_path = p\<rparr>) =
      (Yield \<lparr>val = JCid c, remainderPath = rest\<rparr>, self', \<lparr>r_cid = Some c, r_path = rest\<rparr>)"
    if "getFormat ex (CodecName (cid_codec c1)) self = (Inr fmt1, self')"
      and "bs_get ex (bs self') c1 = Inr blk1"
      and "resolve (resolver fmt1) (block_data blk1) p =
             Inr \<lparr>val = JCid c, remainderPath = rest\<rparr>"
    by (simp add: resolve_next_step [OF that] convert_link_cid)
  have rejected: "resolve_next ex (self, \<lparr>r_cid = Some c0, r_path = p\<rparr>) =
      (Reject e, self', \<lparr>r_cid = Some c0, r_path = rest\<rparr>)"
    if "newCID ex x = Inl e"
    using that by (simp add: step convert_link_legacy)
  from legacy native rejected show ?thesis by simp
qed

theorem resolve_next_legacy_link_witness:
  "getFormat example_externals (CodecName ''dag-cbor'')
      (example_instance [(CID 1 ''dag-cbor'' ''A'', ''/zabc''), (CID 1 ''dag-cbor'' ''B'', ''@abc'')])
     = (Inr example_entry,
        example_instance [(CID 1 ''dag-cbor'' ''A'', ''/zabc''), (CID 1 ''dag-cbor'' ''B'', ''@abc'')])
   \<and> resolve (resolver example_entry) ''/zabc'' ''x'' =
       Inr \<lparr>val = JObj [(''/'', JStr ''zabc'')], remainderPath = ''x''\<rparr>
   \<and> resolve (resolver example_entry) ''@abc'' ''x'' =
       Inr \<lparr>val = JCid (CID 1 ''dag-cbor'' ''abc''), remainderPath = ''x''\<rparr>
   \<and> newCID example_externals (JStr ''zabc'') = Inr (CID 1 ''dag-cbor'' ''abc'')
   \<and> resolve_next example_externals
        (example_instance [(CID 1 ''dag-cbor'' ''A'', ''/zabc''), (CID 1 ''dag-cbor'' ''B'', ''@abc'')],
         \<lparr>r_cid = Some (CID 1 ''dag-cbor'' ''A''), r_path = ''x''\<rparr>) =
       (Yield \<lparr>val = JCid (CID 1 ''dag-cbor'' ''abc''), remainderPath = ''x''\<rparr>,
        example_instance [(CID 1 ''dag-cbor'' ''A'', ''/zabc''), (CID 1 ''dag-cbor'' ''B'', ''@abc'')],
        \<lparr>r_cid = Some (CID 1 ''dag-cbor'' ''abc''), r_path = ''x''\<rparr>)
   \<and> resolve_next example_externals
        (example_instance [(CID 1 ''dag-cbor'' ''A'', ''/zabc''), (CID 1 ''dag-cbor'' ''B'', ''@abc'')],
         \<lparr>r_cid = Some (CID 1 ''dag-cbor'' ''B''), r_path = ''x''\<rparr>) =
       resolve_next example_externals
        (example_instance [(CID 1 ''dag-cbor'' ''A'', ''/zabc''), (CID 1 ''dag-cbor'' ''B'', ''@abc'')],
         \<lparr>r_cid = Some (CID 1 ''dag-cbor'' ''A''), r_path = ''x''\<rparr>)
   \<and> newCID example_externals (JStr ''hello'') = Inl (Error ''invalid cid'')
   \<and> resolve_next example_externals
        (example_instance [(CID 1 ''dag-cbor'' ''root'', ''/hello'')],
         \<lparr>r_cid = Some (CID 1 ''dag-cbor'' ''root''), r_path = ''x''\<rparr>) =
       (Reject (Error ''invalid cid''),
        example_instance [(CID 1 ''dag-cbor'' ''root'', ''/hello'')],
        \<lparr>r_cid = Some (CID 1 ''dag-cbor'' ''root''), r_path = ''x''\<rparr>)"
proof -
  let ?blocks = "[(CID 1 ''dag-cbor'' ''A'', ''/zabc''), (CID 1 ''dag-cbor'' ''B'', ''@abc'')]"
  let ?bad = "[(CID 1 ''dag-cbor'' ''root'', ''/hello'')]"
  have g: "getFormat example_externals (CodecName ''dag-cbor'') (example_instance bl) =
      (Inr example_entry, example_instance bl)" for bl
    by (rule getFormat_hit)
       (simp add: lookup_resolver_def codec_number_def constantName_def toUpperCase_char_def
          example_instance_def example_externals_def)
  have getA: "bs_get example_externals (bs (example_instance ?blocks)) (CID 1 ''dag-cbor'' ''A'')
      = Inr (Block ''/zabc'' (CID 1 ''dag-cbor'' ''A''))"
    by (simp add: example_externals_def example_instance_def)
  have getB: "bs_get example_externals (bs (example_instance ?blocks)) (CID 1 ''dag-cbor'' ''B'')
      = Inr (Block ''@abc'' (CID 1 ''dag-cbor'' ''B''))"
    by (simp add: example_externals_def example_instance_def)
  have getR: "bs_get example_externals (bs (example_instance ?bad)) (CID 1 ''dag-cbor'' ''root'')
      = Inr (Block ''/hello'' (CID 1 ''dag-cbor'' ''root''))"
    by (simp add: example_externals_def example_instance_def)
  have rA: "resolve (resolver example_entry) ''/zabc'' ''x'' =
       Inr \<lparr>val = JObj [(''/'', JStr ''zabc'')], remainderPath = ''x''\<rparr>"
    by (simp add: example_entry_def example_resolver_def example_decode_def)
  have rB: "resolve (resolver example_entry) ''@abc'' ''x'' =
       Inr \<lparr>val = JCid (CID 1 ''dag-cbor'' ''abc''), remainderPath = ''x''\<rparr>"
    by (simp add: example_entry_def example_resolver_def example_decode_def)
  have rR: "resolve (resolver example_entry) ''/hello'' ''x'' =
       Inr \<lparr>val = JObj [(''/'', JStr ''hello'')], remainderPath = ''x''\<rparr>"
    by (simp add: example_entry_def example_resolver_def example_decode_def)
  have n1: "newCID example_externals (JStr ''zabc'') = Inr (CID 1 ''dag-cbor'' ''abc'')"
    by (simp add: example_externals_def example_newCID_def)
  have n2: "newCID example_externals (JStr ''hello'') = Inl (Error ''invalid cid'')"
    by (simp add: example_externals_def example_newCID_def)
  have t1: "resolve_next example_externals
        (example_instance ?blocks, \<lparr>r_cid = Some (CID 1 ''dag-cbor'' ''A''), r_path = ''x''\<rparr>) =
       (Yield \<lparr>val = JCid (CID 1 ''dag-cbor'' ''abc''), remainderPath = ''x''\<rparr>,
        example_instance ?blocks, \<lparr>r_cid = Some (CID 1 ''dag-cbor'' ''abc''), r_path = ''x''\<rparr>)
     \<and> resolve_next example_externals
        (example_instance ?blocks, \<lparr>r_cid = Some (CID 1 ''dag-cbor'' ''B''), r_path = ''x''\<rparr>) =
       resolve_next example_externals
        (example_instance ?blocks, \<lparr>r_cid = Some (CID 1 ''dag-cbor'' ''A''), r_path = ''x''\<rparr>)"
    using resolve_next_legacy_link [where ex = example_externals
        and ?c0.0 = "CID 1 ''dag-cbor'' ''A''" and self = "example_instance ?blocks"
        and self' = "example_instance ?blocks" and fmt = example_entry
        and blk = "Block ''/zabc'' (CID 1 ''dag-cbor'' ''A'')" and p = "''x''"
        and x = "JStr ''zabc''" and rest = "''x''" and c = "CID 1 ''dag-cbor'' ''abc''"
        and ?c1.0 = "CID 1 ''dag-cbor'' ''B''" and ?fmt1.0 = example_entry
        and ?blk1.0 = "Block ''@abc'' (CID 1 ''dag-cbor'' ''B'')"]
      g [of ?blocks] getA getB rA rB n1
    by simp
  have t2: "resolve_next example_externals
        (example_instance ?bad, \<lparr>r_cid = Some (CID 1 ''dag-cbor'' ''root''), r_path = ''x''\<rparr>) =
       (Reject (Error ''invalid cid''), example_instance ?bad,
        \<lparr>r_cid = Some (CID 1 ''dag-cbor'' ''root''), r_path = ''x''\<rparr>)"
    using resolve_next_legacy_link [where ex = example_externals
        and ?c0.0 = "CID 1 ''dag-cbor'' ''root''" and self = "example_instance ?bad"
        and self' = "example_instance ?bad" and fmt = example_entry
        and blk = "Block ''/hello'' (CID 1 ''dag-cbor'' ''root'')" and p = "''x''"
        and x = "JStr ''hello''" and rest = "''x''" and e = "Error ''invalid cid''"]
      g [of ?bad] getR rR n2
    by simp
  from g [of ?blocks] rA rB n1 n2 t1 t2 show ?thesis by simp
qed

text \<open>
  C2. The conversion of old style links throws for some values that are not
  link-shaped: a resolved value \<open>null\<close> makes \<open>Object.keys\<close> throw, and a string of one
  character makes the \<open>in\<close> operator throw. The step is rejected with the TypeError
  instead of yielding the value.
\<close>

theorem resolve_next_rejects_null_value:
  "resolve (resolver example_entry) ''null'' [] = Inr \<lparr>val = JNull, remainderPath = []\<rparr>
   \<and> fst (resolve_next example_externals
          (example_instance [(CID 1 ''dag-cbor'' ''root'', ''null'')],
           \<lparr>r_cid = Some (CID 1 ''dag-cbor'' ''root''), r_path = []\<rparr>)) =
       Reject (TypeError ''Cannot convert undefined or null to object'')
   \<and> resolve (resolver example_entry) ''x'' [] = Inr \<lparr>val = JStr ''x'', remainderPath = []\<rparr>
   \<and> fst (resolve_next example_externals
          (example_instance [(CID 1 ''dag-cbor'' ''root'', ''x'')],
           \<lparr>r_cid = Some (CID 1 ''dag-cbor'' ''root''), r_path = []\<rparr>)) =
       Reject (TypeError ''Cannot use 'in' operator to search for '/' in x'')"
  by (simp add: resolve_next_def getFormat_def lookup_resolver_def codec_number_def
      constantName_def toUpperCase_char_def convert_link_def example_defs)

section \<open>Facts about resolve: continuation\<close>

lemma resolve_next_done: "(fst (resolve_next ex (self, rs)) = Done) = (r_cid rs = None)"
  by (auto simp: resolve_next_def Let_def split: option.splits prod.splits sum.splits)

lemma resolve_next_yield:
  assumes "resolve_next ex (self, rs) = (Yield step, self', rs')"
  shows "r_cid rs' = cid_or_null (val step) \<and> r_path rs' = remainderPath step"
  using assms
  by (auto simp: resolve_next_def Let_def split: option.splits prod.splits sum.splits)

text \<open>
  C3, as the claim states it, fails: the first step of this sequence emits a CID, and
  the pull after it produces no further step; the block of that CID is not in the
  store and the pull is rejected with the store's error.
\<close>

theorem resolve_next_continuation_counterexample:
  "resolve_next example_externals
     (example_instance [(CID 1 ''dag-cbor'' ''root'', ''@abc'')],
      \<lparr>r_cid = Some (CID 1 ''dag-cbor'' ''root''), r_path = []\<rparr>) =
     (Yield \<lparr>val = JCid (CID 1 ''dag-cbor'' ''abc''), remainderPath = []\<rparr>,
      example_instance [(CID 1 ''dag-cbor'' ''root'', ''@abc'')],
      \<lparr>r_cid = Some (CID 1 ''dag-cbor'' ''abc''), r_path = []\<rparr>)
   \<and> fst (resolve_next example_externals
          (example_instance [(CID 1 ''dag-cbor'' ''root'', ''@abc'')],
           \<lparr>r_cid = Some (CID 1 ''dag-cbor'' ''abc''), r_path = []\<rparr>)) =
       Reject (Error ''Not Found'')"
  by (simp add: resolve_next_def getFormat_def lookup_resolver_def codec_number_def
      constantName_def toUpperCase_char_def convert_link_def example_defs)

text \<open>
  C3, amended. After a step \<open>{remainderPath, value}\<close> has been emitted, the current CID
  is \<open>value\<close> when \<open>value\<close> is a CID and \<open>null\<close> otherwise, and the path is
  \<open>remainderPath\<close>. A pull reports done exactly when the current CID is \<open>null\<close>; so the
  pull after an emitted step reports done exactly when the emitted value is not a CID,
  and it can emit a further step only when the value is a CID. For a CID \<open>c\<close> it emits
  the step when the format lookup, the block fetch, the codec's resolve and the link
  conversion for \<open>c\<close> succeed; when the first of them to fail fails with an error, the
  pull is rejected with that very error, the current CID stays \<open>c\<close>, and the path is
  still \<open>remainderPath\<close> unless it was the link conversion that failed (then it is the
  new node's remainder).
\<close>

theorem resolve_next_continuation:
  assumes "resolve_next ex (self, rs) = (Yield step, self', rs')"
  shows "r_cid rs' = cid_or_null (val step) \<and> r_path rs' = remainderPath step
     \<and> (fst (resolve_next ex (self', rs')) = Done) = (cid_or_null (val step) = None)
     \<and> (fst (resolve_next ex (self', rs')) = Yield step' \<longrightarrow> (\<exists>c'. val step = JCid c'))
     \<and> (val step = JCid c
          \<and> getFormat ex (CodecName (cid_codec c)) self' = (Inr fmt, self'')
          \<and> bs_get ex (bs self'') c = Inr blk
          \<and> resolve (resolver fmt) (block_data blk) (remainderPath step) = Inr result
          \<and> convert_link ex (val result) = Inr v \<longrightarrow>
        resolve_next ex (self', rs') =
          (Yield \<lparr>val = v, remainderPath = remainderPath result\<rparr>, self'',
           \<lparr>r_cid = cid_or_null v, r_path = remainderPath result\<rparr>))
     \<and> (val step = JCid c
          \<and> getFormat ex (CodecName (cid_codec c)) self' = (Inl e, self'') \<longrightarrow>
        resolve_next ex (self', rs') = (Reject e, self'', rs'))
     \<and> (val step = JCid c
          \<and> getFormat ex (CodecName (cid_codec c)) self' = (Inr fmt, self'')
          \<and> bs_get ex (bs self'') c = Inl e \<longrightarrow>
        resolve_next ex (self', rs') = (Reject e, self'', rs'))
     \<and> (val step = JCid c
          \<and> getFormat ex (CodecName (cid_codec c)) self' = (Inr fmt, self'')
          \<and> bs_get ex (bs self'') c = Inr blk
          \<and> resolve (resolver fmt) (block_data blk) (remainderPath step) = Inl e \<longrightarrow>
        resolve_next ex (self', rs') = (Reject e, self'', rs'))
     \<and> (val step = JCid c
          \<and> getFormat ex (CodecName (cid_codec c)) self' = (Inr fmt, self'')
          \<and> bs_get ex (bs self'') c = Inr blk
          \<and> resolve (resolver fmt) (block_data blk) (remainderPath step) = Inr result
          \<and> convert_link ex (val result) = Inl e \<longrightarrow>
        resolve_next ex (self', rs') =
          (Reject e, self'', \<lparr>r_cid = Some c, r_path = remainderPath result\<rparr>))"
proof -
  note y = resolve_next_yield [OF assms]
  have d: "(fst (resolve_next ex (self', rs')) = Done) = (cid_or_null (val step) = None)"
    using y by (simp add: resolve_next_done)
  have only_cid: "\<exists>c'. val step = JCid c'"
    if "fst (resolve_next ex (self', rs')) = Yield step'"
  proof -
    from that d have "cid_or_null (val step) \<noteq> None" by auto
    then show ?thesis using y by (cases "val step") auto
  qed
  have rs': "rs' = \<lparr>r_cid = Some c, r_path = remainderPath step\<rparr>" if "val step = JCid c"
    using that y by (cases rs') simp
  have further: "resolve_next ex (self', rs') =
          (Yield \<lparr>val = v, remainderPath = remainderPath result\<rparr>, self'',
           \<lparr>r_cid = cid_or_null v, r_path = remainderPath result\<rparr>)"
    if v: "val step = JCid c"
      and g: "getFormat ex (CodecName (cid_codec c)) self' = (Inr fmt, self'')"
      and b: "bs_get ex (bs self'') c = Inr blk"
      and r: "resolve (resolver fmt) (block_data blk) (remainderPath step) = Inr result"
      and cl: "convert_link ex (val result) = Inr v"
    unfolding rs' [OF v] using cl by (simp add: resolve_next_step [OF g b r])
  have no_format: "resolve_next ex (self', rs') = (Reject e, self'', rs')"
    if v: "val step = JCid c"
      and g: "getFormat ex (CodecName (cid_codec c)) self' = (Inl e, self'')"
    unfolding rs' [OF v] using g by (simp add: resolve_next_def)
  have no_block: "resolve_next ex (self', rs') = (Reject e, self'', rs')"
    if v: "val step = JCid c"
      and g: "getFormat ex (CodecName (cid_codec c)) self' = (Inr fmt, self'')"
      and b: "bs_get ex (bs self'') c = Inl e"
    unfolding rs' [OF v] using g b by (simp add: resolve_next_def)
  have no_value: "resolve_next ex (self', rs') = (Reject e, self'', rs')"
    if v: "val step = JCid c"
      and g: "getFormat ex (CodecName (cid_codec c)) self' = (Inr fmt, self'')"
      and b: "bs_get ex (bs self'') c = Inr blk"
      and r: "resolve (resolver fmt) (block_data blk) (remainderPath step) = Inl e"
    unfolding rs' [OF v] using g b r by (simp add: resolve_next_def)
  have no_link: "resolve_next ex (self', rs') =
          (Reject e, self'', \<lparr>r_cid = Some c, r_path = remainderPath result\<rparr>)"
    if v: "val step = JCid c"
      and g: "getFormat ex (CodecName (cid_codec c)) self' = (Inr fmt, self'')"
      and b: "bs_get ex (bs self'') c = Inr blk"
      and r: "resolve (resolver fmt) (block_data blk) (remainderPath step) = Inr result"
      and cl: "convert_link ex (val result) = Inl e"
    unfolding rs' [OF v] using cl by (simp add: resolve_next_step [OF g b r])
  from y d only_cid further no_format no_block no_value no_link show ?thesis by blast
qed

theorem resolve_next_continuation_witness:
  "resolve_next example_externals
     (example_instance [(CID 1 ''dag-cbor'' ''root'', ''@abc''), (CID 1 ''dag-cbor'' ''abc'', ''leaf'')],
      \<lparr>r_cid = Some (CID 1 ''dag-cbor'' ''root''), r_path = []\<rparr>) =
     (Yield \<lparr>val = JCid (CID 1 ''dag-cbor'' ''abc''), remainderPath = []\<rparr>,
      example_instance [(CID 1 ''dag-cbor'' ''root'', ''@abc''), (CID 1 ''dag-cbor'' ''abc'', ''leaf'')],
      \<lparr>r_cid = Some (CID 1 ''dag-cbor'' ''abc''), r_path = []\<rparr>)
   \<and> resolve_next example_externals
     (example_instance [(CID 1 ''dag-cbor'' ''root'', ''@abc''), (CID 1 ''dag-cbor'' ''abc'', ''leaf'')],
      \<lparr>r_cid = Some (CID 1 ''dag-cbor'' ''abc''), r_path = []\<rparr>) =
     (Yield \<lparr>val = JStr ''leaf'', remainderPath = []\<rparr>,
      example_instance [(CID 1 ''dag-cbor'' ''root'', ''@abc''), (CID 1 ''dag-cbor'' ''abc'', ''leaf'')],
      \<lparr>r_cid = None, r_path = []\<rparr>)
   \<and> fst (resolve_next example_externals
     (example_instance [(CID 1 ''dag-cbor'' ''root'', ''@abc''), (CID 1 ''dag-cbor'' ''abc'', ''leaf'')],
      \<lparr>r_cid = None, r_path = []\<rparr>)) = Done
   \<and> resolve_next example_externals
     (example_instance [(CID 1 ''dag-cbor'' ''root'', ''%abc'')],
      \<lparr>r_cid = Some (CID 1 ''dag-cbor'' ''root''), r_path = []\<rparr>) =
     (Yield \<lparr>val = JCid (CID 1 ''raw'' ''abc''), remainderPath = []\<rparr>,
      example_instance [(CID 1 ''dag-cbor'' ''root'', ''%abc'')],
      \<lparr>r_cid = Some (CID 1 ''raw'' ''abc''), r_path = []\<rparr>)
   \<and> getFormat example_externals (CodecName ''raw'')
        (example_instance [(CID 1 ''dag-cbor'' ''root'', ''%abc'')]) =
     (Inl (Error ''No resolver found for codec \"raw\"''),
      (example_instance [(CID 1 ''dag-cbor'' ''root'', ''%abc'')])
        \<lparr>loadFormat_calls := [Some 85]\<rparr>)
   \<and> resolve_next example_externals
     (example_instance [(CID 1 ''dag-cbor'' ''root'', ''%abc'')],
      \<lparr>r_cid = Some (CID 1 ''raw'' ''abc''), r_path = []\<rparr>) =
     (Reject (Error ''No resolver found for codec \"raw\"''),
      (example_instance [(CID 1 ''dag-cbor'' ''root'', ''%abc'')])
        \<lparr>loadFormat_calls := [Some 85]\<rparr>,
      \<lparr>r_cid = Some (CID 1 ''raw'' ''abc''), r_path = []\<rparr>)
   \<and> bs_get example_externals (bs (example_instance [(CID 1 ''dag-cbor'' ''root'', ''@abc'')]))
        (CID 1 ''dag-cbor'' ''abc'') = Inl (Error ''Not Found'')
   \<and> resolve_next example_externals
     (example_instance [(CID 1 ''dag-cbor'' ''root'', ''@abc'')],
      \<lparr>r_cid = Some (CID 1 ''dag-cbor'' ''abc''), r_path = []\<rparr>) =
     (Reject (Error ''Not Found''),
      example_instance [(CID 1 ''dag-cbor'' ''root'', ''@abc'')],
      \<lparr>r_cid = Some (CID 1 ''dag-cbor'' ''abc''), r_path = []\<rparr>)
   \<and> resolve (resolver example_entry) ''corrupt'' [] = Inl (Error ''malformed block'')
   \<and> resolve_next example_externals
     (example_instance
        [(CID 1 ''dag-cbor'' ''root'', ''@abc''), (CID 1 ''dag-cbor'' ''abc'', ''corrupt'')],
      \<lparr>r_cid = Some (CID 1 ''dag-cbor'' ''abc''), r_path = []\<rparr>) =
     (Reject (Error ''malformed block''),
      example_instance
        [(CID 1 ''dag-cbor'' ''root'', ''@abc''), (CID 1 ''dag-cbor'' ''abc'', ''corrupt'')],
      \<lparr>r_cid = Some (CID 1 ''dag-cbor'' ''abc''), r_path = []\<rparr>)
   \<and> convert_link example_externals JNull =
       Inl (TypeError ''Cannot convert undefined or null to object'')
   \<and> resolve_next example_externals
     (example_instance
        [(CID 1 ''dag-cbor'' ''root'', ''@abc''), (CID 1 ''dag-cbor'' ''abc'', ''null'')],
      \<lparr>r_cid = Some (CID 1 ''dag-cbor'' ''abc''), r_path = []\<rparr>) =
     (Reject (TypeError ''Cannot convert undefined or null to object''),
      example_instance
        [(CID 1 ''dag-cbor'' ''root'', ''@abc''), (CID 1 ''dag-cbor'' ''abc'', ''null'')],
      \<lparr>r_cid = Some (CID 1 ''dag-cbor'' ''abc''), r_path = []\<rparr>)"
proof -
  let ?inst = "example_instance
      [(CID 1 ''dag-cbor'' ''root'', ''@abc''), (CID 1 ''dag-cbor'' ''abc'', ''leaf'')]"
  have first: "resolve_next example_externals
      (?inst, \<lparr>r_cid = Some (CID 1 ''dag-cbor'' ''root''), r_path = []\<rparr>) =
     (Yield \<lparr>val = JCid (CID 1 ''dag-cbor'' ''abc''), remainderPath = []\<rparr>, ?inst,
      \<lparr>r_cid = Some (CID 1 ''dag-cbor'' ''abc''), r_path = []\<rparr>)"
    by (simp add: resolve_next_def getFormat_def lookup_resolver_def codec_number_def
        constantName_def toUpperCase_char_def convert_link_def example_defs)
  have g: "getFormat example_externals (CodecName (cid_codec (CID 1 ''dag-cbor'' ''abc''))) ?inst =
      (Inr example_entry, ?inst)"
    by (rule getFormat_hit)
       (simp add: lookup_resolver_def codec_number_def constantName_def toUpperCase_char_def
          example_instance_def example_externals_def)
  have b: "bs_get example_externals (bs ?inst) (CID 1 ''dag-cbor'' ''abc'') =
      Inr (Block ''leaf'' (CID 1 ''dag-cbor'' ''abc''))"
    by (simp add: example_externals_def example_instance_def)
  have r: "resolve (resolver example_entry)
      (block_data (Block ''leaf'' (CID 1 ''dag-cbor'' ''abc'')))
      (remainderPath \<lparr>val = JCid (CID 1 ''dag-cbor'' ''abc''), remainderPath = []\<rparr>) =
      Inr \<lparr>val = JStr ''leaf'', remainderPath = []\<rparr>"
    by (simp add: example_entry_def example_resolver_def example_decode_def)
  have cl: "convert_link example_externals (val \<lparr>val = JStr ''leaf'', remainderPath = []\<rparr>) =
      Inr (JStr ''leaf'')"
    by (simp add: convert_link_def)
  from resolve_next_continuation [OF first, where c = "CID 1 ''dag-cbor'' ''abc''"
      and fmt = example_entry and self'' = ?inst
      and blk = "Block ''leaf'' (CID 1 ''dag-cbor'' ''abc'')"
      and result = "\<lparr>val = JStr ''leaf'', remainderPath = []\<rparr>" and v = "JStr ''leaf''"]
    g b r cl
  have second: "resolve_next example_externals
      (?inst, \<lparr>r_cid = Some (CID 1 ''dag-cbor'' ''abc''), r_path = []\<rparr>) =
     (Yield \<lparr>val = JStr ''leaf'', remainderPath = []\<rparr>, ?inst, \<lparr>r_cid = None, r_path = []\<rparr>)"
    by simp
  from resolve_next_continuation [OF second]
  have third: "fst (resolve_next example_externals (?inst, \<lparr>r_cid = None, r_path = []\<rparr>)) = Done"
    by simp
  have hit: "getFormat example_externals (CodecName ''dag-cbor'') (example_instance bl) =
      (Inr example_entry, example_instance bl)" for bl
    by (rule getFormat_hit)
       (simp add: lookup_resolver_def codec_number_def constantName_def toUpperCase_char_def
          example_instance_def example_externals_def)
  have start: "resolve_next example_externals
      (example_instance ((CID 1 ''dag-cbor'' ''root'', ''@abc'') # bl),
       \<lparr>r_cid = Some (CID 1 ''dag-cbor'' ''root''), r_path = []\<rparr>) =
     (Yield \<lparr>val = JCid (CID 1 ''dag-cbor'' ''abc''), remainderPath = []\<rparr>,
      example_instance ((CID 1 ''dag-cbor'' ''root'', ''@abc'') # bl),
      \<lparr>r_cid = Some (CID 1 ''dag-cbor'' ''abc''), r_path = []\<rparr>)" for bl
    by (simp add: resolve_next_def getFormat_def lookup_resolver_def codec_number_def
        constantName_def toUpperCase_char_def convert_link_def example_defs)
  let ?raw = "example_instance [(CID 1 ''dag-cbor'' ''root'', ''%abc'')]"
  have start_raw: "resolve_next example_externals
      (?raw, \<lparr>r_cid = Some (CID 1 ''dag-cbor'' ''root''), r_path = []\<rparr>) =
     (Yield \<lparr>val = JCid (CID 1 ''raw'' ''abc''), remainderPath = []\<rparr>, ?raw,
      \<lparr>r_cid = Some (CID 1 ''raw'' ''abc''), r_path = []\<rparr>)"
    by (simp add: resolve_next_def getFormat_def lookup_resolver_def codec_number_def
        constantName_def toUpperCase_char_def convert_link_def example_defs)
  have miss: "getFormat example_externals (CodecName ''raw'') ?raw =
     (Inl (Error ''No resolver found for codec \"raw\"''), ?raw\<lparr>loadFormat_calls := [Some 85]\<rparr>)"
    by (simp add: getFormat_def lookup_resolver_def codec_number_def constantName_def
        toUpperCase_char_def codecName_def example_defs)
  from resolve_next_continuation [OF start_raw, where c = "CID 1 ''raw'' ''abc''"
      and e = "Error ''No resolver found for codec \"raw\"''"
      and self'' = "?raw\<lparr>loadFormat_calls := [Some 85]\<rparr>"] miss
  have r1: "resolve_next example_externals
      (?raw, \<lparr>r_cid = Some (CID 1 ''raw'' ''abc''), r_path = []\<rparr>) =
     (Reject (Error ''No resolver found for codec \"raw\"''),
      ?raw\<lparr>loadFormat_calls := [Some 85]\<rparr>,
      \<lparr>r_cid = Some (CID 1 ''raw'' ''abc''), r_path = []\<rparr>)"
    by simp
  let ?lone = "example_instance [(CID 1 ''dag-cbor'' ''root'', ''@abc'')]"
  have nf: "bs_get example_externals (bs ?lone) (CID 1 ''dag-cbor'' ''abc'')
      = Inl (Error ''Not Found'')"
    by (simp add: example_externals_def example_instance_def)
  from resolve_next_continuation [OF start [of "[]"], where c = "CID 1 ''dag-cbor'' ''abc''"
      and fmt = example_entry and self'' = ?lone and e = "Error ''Not Found''"]
    hit [of "[(CID 1 ''dag-cbor'' ''root'', ''@abc'')]"] nf
  have r2: "resolve_next example_externals
      (?lone, \<lparr>r_cid = Some (CID 1 ''dag-cbor'' ''abc''), r_path = []\<rparr>) =
     (Reject (Error ''Not Found''), ?lone,
      \<lparr>r_cid = Some (CID 1 ''dag-cbor'' ''abc''), r_path = []\<rparr>)"
    by simp
  let ?bad = "example_instance
      [(CID 1 ''dag-cbor'' ''root'', ''@abc''), (CID 1 ''dag-cbor'' ''abc'', ''corrupt'')]"
  have bc: "bs_get example_externals (bs ?bad) (CID 1 ''dag-cbor'' ''abc'') =
      Inr (Block ''corrupt'' (CID 1 ''dag-cbor'' ''abc''))"
    by (simp add: example_externals_def example_instance_def)
  have rc: "resolve (resolver example_entry) ''corrupt'' [] = Inl (Error ''malformed block'')"
    by (simp add: example_entry_def example_resolver_def)
  from resolve_next_continuation [OF start [of "[(CID 1 ''dag-cbor'' ''abc'', ''corrupt'')]"],
      where c = "CID 1 ''dag-cbor'' ''abc''" and fmt = example_entry and self'' = ?bad
      and blk = "Block ''corrupt'' (CID 1 ''dag-cbor'' ''abc'')"
      and e = "Error ''malformed block''"]
    hit [of "[(CID 1 ''dag-cbor'' ''root'', ''@abc''), (CID 1 ''dag-cbor'' ''abc'', ''corrupt'')]"]
    bc rc
  have r3: "resolve_next example_externals
      (?bad, \<lparr>r_cid = Some (CID 1 ''dag-cbor'' ''abc''), r_path = []\<rparr>) =
     (Reject (Error ''malformed block''), ?bad,
      \<lparr>r_cid = Some (CID 1 ''dag-cbor'' ''abc''), r_path = []\<rparr>)"
    by simp
  let ?nul = "example_instance
      [(CID 1 ''dag-cbor'' ''root'', ''@abc''), (CID 1 ''dag-cbor'' ''abc'', ''null'')]"
  have bn: "bs_get example_externals (bs ?nul) (CID 1 ''dag-cbor'' ''abc'') =
      Inr (Block ''null'' (CID 1 ''dag-cbor'' ''abc''))"
    by (simp add: example_externals_def example_instance_def)
  have rn: "resolve (resolver example_entry) ''null'' [] =
      Inr \<lparr>val = JNull, remainderPath = []\<rparr>"
    by (simp add: example_entry_def example_resolver_def example_decode_def)
  have cn: "convert_link example_externals JNull =
      Inl (TypeError ''Cannot convert undefined or null to object'')"
    by (rule convert_link_null)
  from resolve_next_continuation [OF start [of "[(CID 1 ''dag-cbor'' ''abc'', ''null'')]"],
      where c = "CID 1 ''dag-cbor'' ''abc''" and fmt = example_entry and self'' = ?nul
      and blk = "Block ''null'' (CID 1 ''dag-cbor'' ''abc'')"
      and result = "\<lparr>val = JNull, remainderPath = []\<rparr>"
      and e = "TypeError ''Cannot convert undefined or null to object''"]
    hit [of "[(CID 1 ''dag-cbor'' ''root'', ''@abc''), (CID 1 ''dag-cbor'' ''abc'', ''null'')]"]
    bn rn cn
  have r4: "resolve_next example_externals
      (?nul, \<lparr>r_cid = Some (CID 1 ''dag-cbor'' ''abc''), r_path = []\<rparr>) =
     (Reject (TypeError ''Cannot convert undefined or null to object''), ?nul,
      \<lparr>r_cid = Some (CID 1 ''dag-cbor'' ''abc''), r_path = []\<rparr>)"
    by simp
  from first second third start_raw miss r1 nf r2 rc r3 cn r4 show ?thesis by simp
qed

section \<open>Facts about put\<close>

text \<open>
  C4. On an instance whose format was registered by \<open>addFormat\<close> (here through the
  constructor), \<open>put\<close> without user options builds its options on the first node with
  \<open>hashAlg\<close> \<open>undefined\<close>, although the format declares \<open>defaultHashAlg\<close> 18: the registry
  entry that \<open>_getFormat\<close> returns holds \<open>resolver\<close> and \<open>util\<close> only. The CID function is
  called with that \<open>undefined\<close>. When the loader supplies the same format at this very
  lookup, \<open>_getFormat\<close> returns the loader's object and \<open>hashAlg\<close> is 18.
\<close>

theorem put_registered_format_hashAlg_undefined:
  "constructor example_externals []
     \<lparr>blockService = Some [], loadFormat_option = None, formats = Some [example_format]\<rparr>
     = Inr (example_instance [])
   \<and> defaultHashAlg example_format = JNum 18
   \<and> put_init (JNum 113) = Inr (113, \<lparr>options = None, formatImpl = None\<rparr>)
   \<and> put_node example_externals 113 None (JStr ''hello'')
        (example_instance [], \<lparr>options = None, formatImpl = None\<rparr>) =
       (Inr (CID 1 ''dag-cbor'' ''none:hello''),
        example_instance [(CID 1 ''dag-cbor'' ''none:hello'', ''hello'')],
        \<lparr>options = Some [(''hashAlg'', JUndefined), (''cidVersion'', JNum 1),
                         (''onlyHash'', JBool False)],
         formatImpl = Some example_entry\<rparr>)
   \<and> fst (put_node example_externals 113 None (JStr ''hello'')
        (example_lazy_instance [], \<lparr>options = None, formatImpl = None\<rparr>)) =
       Inr (CID 1 ''dag-cbor'' ''sha2-256:hello'')
   \<and> options (snd (snd (put_node example_externals 113 None (JStr ''hello'')
        (example_lazy_instance [], \<lparr>options = None, formatImpl = None\<rparr>)))) =
       Some [(''hashAlg'', JNum 18), (''cidVersion'', JNum 1), (''onlyHash'', JBool False)]"
proof (intro conjI)
  show "constructor example_externals []
     \<lparr>blockService = Some [], loadFormat_option = None, formats = Some [example_format]\<rparr>
     = Inr (example_instance [])"
    by (rule example_constructor)
  show "defaultHashAlg example_format = JNum 18"
    by (simp add: example_format_def)
  show "put_init (JNum 113) = Inr (113, \<lparr>options = None, formatImpl = None\<rparr>)"
    by (simp add: put_init_def)
qed (simp_all add: put_node_def lazy_options_def store_def defaultOptions_def cidOptions_def
      getFormat_def addFormat_def lookup_resolver_def codec_number_def constantName_def
      toUpperCase_char_def get_prop_def example_defs)

lemma map_of_set_prop: "map_of (set_prop k v obj) = (map_of obj)(k \<mapsto> v)"
  by (induction obj) (auto simp: fun_eq_iff)

lemma get_prop_mergeOptions_other:
  "k \<notin> fst ` set uo \<Longrightarrow> get_prop (mergeOptions d (Some uo)) k = get_prop d k"
proof (induction uo arbitrary: d)
  case Nil
  then show ?case by simp
next
  case (Cons kv uo)
  obtain k' v' where kv: "kv = (k', v')" by (cases kv)
  with Cons.prems have "k \<noteq> k'" and "k \<notin> fst ` set uo" by auto
  with Cons.IH [of "set_prop k' v' d"] kv show ?case
    by (simp add: get_prop_def map_of_set_prop)
qed

lemma get_prop_mergeOptions_user:
  "distinct (map fst uo) \<Longrightarrow> map_of uo k = Some v \<Longrightarrow>
   get_prop (mergeOptions d (Some uo)) k = v"
proof (induction uo arbitrary: d)
  case Nil
  then show ?case by simp
next
  case (Cons kv uo)
  obtain k' v' where kv: "kv = (k', v')" by (cases kv)
  show ?case
  proof (cases "k = k'")
    case True
    with Cons.prems kv have "v = v'" and "k \<notin> fst ` set uo" by auto
    with True kv show ?thesis
      by (simp add: get_prop_mergeOptions_other) (simp add: get_prop_def map_of_set_prop)
  next
    case False
    with Cons.prems kv have "distinct (map fst uo)" and "map_of uo k = Some v" by auto
    with Cons.IH [of "set_prop k' v' d"] kv show ?thesis by simp
  qed
qed

lemma lazy_options_set:
  "lazy_options ex fmt uo (self, \<lparr>options = Some opts, formatImpl = impl\<rparr>) =
     (Inr (), self, \<lparr>options = Some opts, formatImpl = impl\<rparr>)"
  by (simp add: lazy_options_def)

lemma put_node_onlyHash:
  assumes "truthy (get_prop opts ''onlyHash'')"
  shows "put_node ex fmt uo node (self, \<lparr>options = Some opts, formatImpl = Some impl\<rparr>) =
     (case util_cid (util impl) node (cidOptions opts) of
        Inl e \<Rightarrow> (Inl e, self, \<lparr>options = Some opts, formatImpl = Some impl\<rparr>)
      | Inr c \<Rightarrow> (Inr c, self, \<lparr>options = Some opts, formatImpl = Some impl\<rparr>))"
  using assms by (simp add: put_node_def lazy_options_set split: sum.splits)

lemma put_node_first:
  assumes "getFormat ex (CodecCode fmt) self = (Inr impl, self1)"
  shows "put_node ex fmt uo node (self, \<lparr>options = None, formatImpl = None\<rparr>) =
         put_node ex fmt uo node
           (self1, \<lparr>options = Some (mergeOptions (defaultOptions impl) uo),
                    formatImpl = Some impl\<rparr>)"
  using assms by (simp add: put_node_def lazy_options_def)

lemma put_node_no_format:
  assumes "getFormat ex (CodecCode fmt) self = (Inl e, self1)"
  shows "put_node ex fmt uo node (self, \<lparr>options = None, formatImpl = None\<rparr>) =
         (Inl e, self1, \<lparr>options = None, formatImpl = None\<rparr>)"
  using assms by (simp add: put_node_def lazy_options_def)

lemma put_all_onlyHash:
  assumes t: "truthy (get_prop opts ''onlyHash'')"
      and ps: "ps = \<lparr>options = Some opts, formatImpl = Some impl\<rparr>"
      and run: "put_all ex fmt uo nodes (self, ps) = (cs, r, st')"
  shows "st' = (self, ps) \<and> length cs \<le> length nodes
     \<and> map (\<lambda>node. util_cid (util impl) node (cidOptions opts)) (take (length cs) nodes)
         = map Inr cs
     \<and> (r = None \<longrightarrow> length cs = length nodes)
     \<and> ((\<forall>node \<in> set nodes. \<exists>c. util_cid (util impl) node (cidOptions opts) = Inr c)
          \<longrightarrow> r = None)"
  using run
proof (induction nodes arbitrary: cs r st')
  case Nil
  then show ?case by simp
next
  case (Cons node nodes)
  show ?case
  proof (cases "util_cid (util impl) node (cidOptions opts)")
    case (Inl e)
    with Cons.prems show ?thesis
      by (auto simp: ps put_node_onlyHash [OF t])
  next
    case (Inr c)
    obtain cs1 r1 st1 where rest: "put_all ex fmt uo nodes (self, ps) = (cs1, r1, st1)"
      by (cases "put_all ex fmt uo nodes (self, ps)") auto
    from Cons.prems Inr rest have "cs = c # cs1" and "r = r1" and "st' = st1"
      by (auto simp: ps put_node_onlyHash [OF t])
    with Cons.IH [OF rest] Inr show ?thesis by simp
  qed
qed

text \<open>
  C7, as the claim states it, fails: with \<open>{onlyHash: true}\<close> and two nodes, the second
  of which the format cannot hash, \<open>put\<close> yields one CID and then the format's error.
\<close>

theorem put_onlyHash_counterexample:
  "put_all example_externals 113 (Some [(''onlyHash'', JBool True)]) [JStr ''a'', JNull]
     (example_instance [], \<lparr>options = None, formatImpl = None\<rparr>) =
     ([CID 1 ''dag-cbor'' ''none:a''], Some (Error ''not serializable''),
      example_instance [],
      \<lparr>options = Some [(''hashAlg'', JUndefined), (''cidVersion'', JNum 1),
                       (''onlyHash'', JBool True)],
       formatImpl = Some example_entry\<rparr>)"
  by (simp add: put_node_def lazy_options_def defaultOptions_def cidOptions_def
      getFormat_def lookup_resolver_def codec_number_def get_prop_def example_defs)

lemma put_all_onlyHash_failure:
  assumes t: "truthy (get_prop opts ''onlyHash'')"
      and ps: "ps = \<lparr>options = Some opts, formatImpl = Some impl\<rparr>"
      and pre: "map (\<lambda>node. util_cid (util impl) node (cidOptions opts)) pre = map Inr cs0"
      and fail: "util_cid (util impl) node (cidOptions opts) = Inl e0"
  shows "put_all ex fmt uo (pre @ node # post) (self, ps) = (cs0, Some e0, self, ps)"
  using pre
proof (induction pre arbitrary: cs0)
  case Nil
  with fail show ?case by (simp add: ps put_node_onlyHash [OF t])
next
  case (Cons n pre)
  then obtain c cs1 where cs0: "cs0 = c # cs1"
    and c: "util_cid (util impl) n (cidOptions opts) = Inr c"
    and rest: "map (\<lambda>node. util_cid (util impl) node (cidOptions opts)) pre = map Inr cs1"
    by (cases cs0) auto
  from Cons.IH [OF rest] c cs0 show ?case
    by (simp add: ps put_node_onlyHash [OF t])
qed

text \<open>
  C7, amended. Let \<open>put\<close> run, to its end, over any node sequence with user options
  whose \<open>onlyHash\<close> is \<open>true\<close>. Whatever the outcome, nothing is written: the store's
  state afterwards is its state before, so \<open>get\<close> answers for every CID as before.
  If the format lookup on the first node fails, nothing is yielded and the sequence
  ends with the lookup's error. Otherwise the CIDs yielded are, in order, those the
  format computes for the nodes under the merged options: when a CID computation
  fails, exactly the CIDs of the nodes before the first failing node are yielded and
  the sequence ends with the error of that computation; when every computation
  succeeds, one CID is yielded per input node and the sequence ends without error.
\<close>

theorem put_onlyHash_no_write:
  assumes d: "distinct (map fst uo)"
      and t: "map_of uo ''onlyHash'' = Some (JBool True)"
      and run: "put_all ex fmt (Some uo) nodes (self, \<lparr>options = None, formatImpl = None\<rparr>)
                  = (cs, r, self', ps')"
  shows "bs self' = bs self
     \<and> (\<forall>c. bs_get ex (bs self') c = bs_get ex (bs self) c)
     \<and> length cs \<le> length nodes
     \<and> (getFormat ex (CodecCode fmt) self = (Inl e, self1) \<and> nodes \<noteq> [] \<longrightarrow>
          cs = [] \<and> r = Some e \<and> self' = self1)
     \<and> (getFormat ex (CodecCode fmt) self = (Inr impl, self1) \<longrightarrow>
          map (\<lambda>node. util_cid (util impl) node
                 (cidOptions (mergeOptions (defaultOptions impl) (Some uo))))
            (take (length cs) nodes) = map Inr cs
          \<and> (r = None \<longrightarrow> length cs = length nodes)
          \<and> ((\<forall>node \<in> set nodes. \<exists>c. util_cid (util impl) node
                 (cidOptions (mergeOptions (defaultOptions impl) (Some uo))) = Inr c)
               \<longrightarrow> r = None \<and> length cs = length nodes)
          \<and> (nodes = pre @ failing # post
               \<and> map (\<lambda>node. util_cid (util impl) node
                      (cidOptions (mergeOptions (defaultOptions impl) (Some uo)))) pre
                   = map Inr cs0
               \<and> util_cid (util impl) failing
                      (cidOptions (mergeOptions (defaultOptions impl) (Some uo))) = Inl e0
               \<longrightarrow> cs = cs0 \<and> r = Some e0)
          \<and> (nodes \<noteq> [] \<longrightarrow>
                self' = self1
                \<and> ps' = \<lparr>options = Some (mergeOptions (defaultOptions impl) (Some uo)),
                         formatImpl = Some impl\<rparr>))"
proof (cases nodes)
  case Nil
  with run show ?thesis by simp
next
  case (Cons node1 rest)
  obtain g self0 where g: "getFormat ex (CodecCode fmt) self = (g, self0)"
    by (cases "getFormat ex (CodecCode fmt) self")
  have store0: "bs self0 = bs self" using g by (rule getFormat_bs')
  show ?thesis
  proof (cases g)
    case (Inl e1)
    from run Cons g Inl have "cs = []" "r = Some e1" "self' = self0"
      by (simp_all add: put_node_no_format)
    with g Inl store0 show ?thesis by simp
  next
    case (Inr impl0)
    let ?opts = "mergeOptions (defaultOptions impl0) (Some uo)"
    let ?ps = "\<lparr>options = Some ?opts, formatImpl = Some impl0\<rparr>"
    let ?f = "\<lambda>node. util_cid (util impl0) node (cidOptions ?opts)"
    have tr: "truthy (get_prop ?opts ''onlyHash'')"
      by (simp add: get_prop_mergeOptions_user [OF d t])
    from g Inr have g': "getFormat ex (CodecCode fmt) self = (Inr impl0, self0)" by simp
    from run Cons have run': "put_all ex fmt (Some uo) nodes (self0, ?ps) = (cs, r, self', ps')"
      by (simp add: put_node_first [OF g'])
    note general = put_all_onlyHash [OF tr refl run']
    have failure: "cs = cs0 \<and> r = Some e0"
      if "nodes = pre @ failing # post" and "map ?f pre = map Inr cs0"
        and "?f failing = Inl e0"
      using put_all_onlyHash_failure [OF tr refl that(2) that(3), of ex fmt "Some uo" post self0]
        run' that(1)
      by simp
    from general failure g' store0 Cons show ?thesis by auto
  qed
qed

theorem put_onlyHash_no_write_witness:
  "distinct (map fst [(''onlyHash'', JBool True)])
   \<and> map_of [(''onlyHash'', JBool True)] ''onlyHash'' = Some (JBool True)
   \<and> put_all example_externals 113 (Some [(''onlyHash'', JBool True)]) [JStr ''a'', JStr ''b'']
        (example_instance [(CID 1 ''dag-cbor'' ''none:b'', ''b'')],
         \<lparr>options = None, formatImpl = None\<rparr>) =
       ([CID 1 ''dag-cbor'' ''none:a'', CID 1 ''dag-cbor'' ''none:b''], None,
        example_instance [(CID 1 ''dag-cbor'' ''none:b'', ''b'')],
        \<lparr>options = Some [(''hashAlg'', JUndefined), (''cidVersion'', JNum 1),
                         (''onlyHash'', JBool True)],
         formatImpl = Some example_entry\<rparr>)
   \<and> bs (example_instance [(CID 1 ''dag-cbor'' ''none:b'', ''b'')]) =
       [(CID 1 ''dag-cbor'' ''none:b'', ''b'')]
   \<and> bs_get example_externals (bs (example_instance [(CID 1 ''dag-cbor'' ''none:b'', ''b'')]))
        (CID 1 ''dag-cbor'' ''none:a'') = Inl (Error ''Not Found'')
   \<and> length [CID 1 ''dag-cbor'' ''none:a'', CID 1 ''dag-cbor'' ''none:b'']
       = length [JStr ''a'', JStr ''b'']
   \<and> getFormat example_externals (CodecCode 113) (example_instance []) =
       (Inr example_entry, example_instance [])
   \<and> map (\<lambda>node. util_cid (util example_entry) node
          (cidOptions (mergeOptions (defaultOptions example_entry)
             (Some [(''onlyHash'', JBool True)])))) [JStr ''a'']
       = map Inr [CID 1 ''dag-cbor'' ''none:a'']
   \<and> util_cid (util example_entry) JNull
          (cidOptions (mergeOptions (defaultOptions example_entry)
             (Some [(''onlyHash'', JBool True)]))) = Inl (Error ''not serializable'')
   \<and> put_all example_externals 113 (Some [(''onlyHash'', JBool True)])
        [JStr ''a'', JNull, JStr ''b'']
        (example_instance [], \<lparr>options = None, formatImpl = None\<rparr>) =
       ([CID 1 ''dag-cbor'' ''none:a''], Some (Error ''not serializable''),
        example_instance [],
        \<lparr>options = Some (mergeOptions (defaultOptions example_entry)
                          (Some [(''onlyHash'', JBool True)])),
         formatImpl = Some example_entry\<rparr>)
   \<and> getFormat example_externals (CodecCode 85) (example_instance []) =
       (Inl (Error ''No resolver found for codec \"raw\"''),
        (example_instance [])\<lparr>loadFormat_calls := [Some 85]\<rparr>)
   \<and> put_all example_externals 85 (Some [(''onlyHash'', JBool True)]) [JStr ''a'']
        (example_instance [], \<lparr>options = None, formatImpl = None\<rparr>) =
       ([], Some (Error ''No resolver found for codec \"raw\"''),
        (example_instance [])\<lparr>loadFormat_calls := [Some 85]\<rparr>,
        \<lparr>options = None, formatImpl = None\<rparr>)"
proof -
  let ?inst = "example_instance [(CID 1 ''dag-cbor'' ''none:b'', ''b'')]"
  have d: "distinct (map fst [(''onlyHash'', JBool True)])" by simp
  have t: "map_of [(''onlyHash'', JBool True)] ''onlyHash'' = Some (JBool True)" by simp
  have run: "put_all example_externals 113 (Some [(''onlyHash'', JBool True)])
        [JStr ''a'', JStr ''b''] (?inst, \<lparr>options = None, formatImpl = None\<rparr>) =
       ([CID 1 ''dag-cbor'' ''none:a'', CID 1 ''dag-cbor'' ''none:b''], None, ?inst,
        \<lparr>options = Some [(''hashAlg'', JUndefined), (''cidVersion'', JNum 1),
                         (''onlyHash'', JBool True)],
         formatImpl = Some example_entry\<rparr>)"
    by (simp add: put_node_def lazy_options_def defaultOptions_def cidOptions_def
        getFormat_def lookup_resolver_def codec_number_def get_prop_def example_defs)
  from put_onlyHash_no_write [OF d t run]
  have "bs ?inst = bs ?inst
     \<and> (\<forall>c. bs_get example_externals (bs ?inst) c = bs_get example_externals (bs ?inst) c)
     \<and> length [CID 1 ''dag-cbor'' ''none:a'', CID 1 ''dag-cbor'' ''none:b'']
         \<le> length [JStr ''a'', JStr ''b'']"
    by blast
  moreover have "bs ?inst = [(CID 1 ''dag-cbor'' ''none:b'', ''b'')]"
    by (simp add: example_instance_def)
  moreover have "bs_get example_externals (bs ?inst) (CID 1 ''dag-cbor'' ''none:a'')
      = Inl (Error ''Not Found'')"
    by (simp add: example_instance_def example_externals_def)
  ultimately have part1: "put_all example_externals 113 (Some [(''onlyHash'', JBool True)])
        [JStr ''a'', JStr ''b''] (?inst, \<lparr>options = None, formatImpl = None\<rparr>) =
       ([CID 1 ''dag-cbor'' ''none:a'', CID 1 ''dag-cbor'' ''none:b''], None, ?inst,
        \<lparr>options = Some [(''hashAlg'', JUndefined), (''cidVersion'', JNum 1),
                         (''onlyHash'', JBool True)],
         formatImpl = Some example_entry\<rparr>)
     \<and> bs ?inst = [(CID 1 ''dag-cbor'' ''none:b'', ''b'')]
     \<and> bs_get example_externals (bs ?inst) (CID 1 ''dag-cbor'' ''none:a'')
         = Inl (Error ''Not Found'')"
    using run by simp
  let ?uo = "[(''onlyHash'', JBool True)]"
  let ?opts = "mergeOptions (defaultOptions example_entry) (Some ?uo)"
  have hit: "getFormat example_externals (CodecCode 113) (example_instance []) =
       (Inr example_entry, example_instance [])"
    by (rule getFormat_hit) (simp add: lookup_resolver_def codec_number_def example_instance_def)
  have pre: "map (\<lambda>node. util_cid (util example_entry) node (cidOptions ?opts)) [JStr ''a'']
       = map Inr [CID 1 ''dag-cbor'' ''none:a'']"
    by (simp add: defaultOptions_def cidOptions_def get_prop_def example_entry_def
        example_util_def)
  have bad: "util_cid (util example_entry) JNull (cidOptions ?opts)
       = Inl (Error ''not serializable'')"
    by (simp add: example_entry_def example_util_def)
  obtain cs r self' ps' where run2: "put_all example_externals 113 (Some ?uo)
        [JStr ''a'', JNull, JStr ''b'']
        (example_instance [], \<lparr>options = None, formatImpl = None\<rparr>) = (cs, r, self', ps')"
    by (metis prod_cases4)
  from put_onlyHash_no_write [OF d t run2, where impl = example_entry
      and ?self1.0 = "example_instance []" and pre = "[JStr ''a'']" and failing = JNull
      and post = "[JStr ''b'']" and ?cs0.0 = "[CID 1 ''dag-cbor'' ''none:a'']"
      and ?e0.0 = "Error ''not serializable''"] hit pre bad
  have "cs = [CID 1 ''dag-cbor'' ''none:a''] \<and> r = Some (Error ''not serializable'')
      \<and> self' = example_instance []
      \<and> ps' = \<lparr>options = Some ?opts, formatImpl = Some example_entry\<rparr>"
    by simp
  with run2 have part2: "put_all example_externals 113 (Some ?uo)
        [JStr ''a'', JNull, JStr ''b'']
        (example_instance [], \<lparr>options = None, formatImpl = None\<rparr>) =
       ([CID 1 ''dag-cbor'' ''none:a''], Some (Error ''not serializable''),
        example_instance [], \<lparr>options = Some ?opts, formatImpl = Some example_entry\<rparr>)"
    by simp
  have miss: "getFormat example_externals (CodecCode 85) (example_instance []) =
       (Inl (Error ''No resolver found for codec \"raw\"''),
        (example_instance [])\<lparr>loadFormat_calls := [Some 85]\<rparr>)"
    by (simp add: getFormat_def lookup_resolver_def codec_number_def codecName_def
        example_defs)
  obtain cs3 r3 self3 ps3 where run3: "put_all example_externals 85 (Some ?uo) [JStr ''a'']
        (example_instance [], \<lparr>options = None, formatImpl = None\<rparr>) = (cs3, r3, self3, ps3)"
    by (metis prod_cases4)
  have ps3: "ps3 = \<lparr>options = None, formatImpl = None\<rparr>"
    using run3 miss by (simp add: put_node_no_format)
  from put_onlyHash_no_write [OF d t run3,
      where e = "Error ''No resolver found for codec \"raw\"''"
      and ?self1.0 = "(example_instance [])\<lparr>loadFormat_calls := [Some 85]\<rparr>"] miss
  have "cs3 = [] \<and> r3 = Some (Error ''No resolver found for codec \"raw\"'')
      \<and> self3 = (example_instance [])\<lparr>loadFormat_calls := [Some 85]\<rparr>"
    by simp
  with run3 ps3 have part3: "put_all example_externals 85 (Some ?uo) [JStr ''a'']
        (example_instance [], \<lparr>options = None, formatImpl = None\<rparr>) =
       ([], Some (Error ''No resolver found for codec \"raw\"''),
        (example_instance [])\<lparr>loadFormat_calls := [Some 85]\<rparr>,
        \<lparr>options = None, formatImpl = None\<rparr>)"
    by simp
  have len: "length [CID 1 ''dag-cbor'' ''none:a'', CID 1 ''dag-cbor'' ''none:b'']
       = length [JStr ''a'', JStr ''b'']"
    by simp
  from d t part1 len hit pre bad part2 miss part3 show ?thesis by blast
qed

section \<open>Facts about remove\<close>

declare remove_all.simps [simp del]

lemma remove_all_Nil: "remove_all ex (self, []) = ([], None, self, [])"
  by (simp add: remove_all.simps remove_next_def)

lemma remove_all_Cons:
  "remove_all ex (self, c # rest) =
     (case bs_delete ex (bs self) c of
        Inl e \<Rightarrow> ([], Some e, self, rest)
      | Inr s' \<Rightarrow>
          (case remove_all ex (self\<lparr>bs := s'\<rparr>, rest) of (cs, r, st') \<Rightarrow> (c # cs, r, st')))"
  by (subst remove_all.simps) (simp add: remove_next_def split: sum.splits)

lemma remove_all_success:
  "deleted_in_order ex (bs self) cids = Some s1 \<Longrightarrow>
   remove_all ex (self, cids) = (cids, None, self\<lparr>bs := s1\<rparr>, [])"
proof (induction cids arbitrary: self)
  case Nil
  then show ?case by (simp add: remove_all_Nil)
next
  case (Cons c cids)
  from Cons.prems obtain s' where s': "bs_delete ex (bs self) c = Inr s'"
    and rest: "deleted_in_order ex s' cids = Some s1"
    by (auto split: sum.splits)
  from Cons.IH [of "self\<lparr>bs := s'\<rparr>"] rest s' show ?case
    by (simp add: remove_all_Cons)
qed

lemma remove_all_failure:
  "deleted_in_order ex (bs self) pre = Some s1 \<Longrightarrow> bs_delete ex s1 c = Inl e \<Longrightarrow>
   remove_all ex (self, pre @ c # post) = (pre, Some e, self\<lparr>bs := s1\<rparr>, post)"
proof (induction pre arbitrary: self)
  case Nil
  then show ?case by (simp add: remove_all_Cons)
next
  case (Cons p pre)
  from Cons.prems obtain s' where s': "bs_delete ex (bs self) p = Inr s'"
    and rest: "deleted_in_order ex s' pre = Some s1"
    by (auto split: sum.splits)
  from Cons.IH [of "self\<lparr>bs := s'\<rparr>"] rest s' Cons.prems(2) show ?case
    by (simp add: remove_all_Cons)
qed

lemma first_failure:
  "(\<exists>s1. deleted_in_order ex s cids = Some s1)
   \<or> (\<exists>pre c post s1 e. cids = pre @ c # post \<and> deleted_in_order ex s pre = Some s1
         \<and> bs_delete ex s1 c = Inl e)"
proof (induction cids arbitrary: s)
  case Nil
  then show ?case by simp
next
  case (Cons c cids)
  show ?case
  proof (cases "bs_delete ex s c")
    case (Inl e)
    then have "c # cids = [] @ c # cids \<and> deleted_in_order ex s [] = Some s
        \<and> bs_delete ex s c = Inl e" by simp
    then show ?thesis by blast
  next
    case (Inr s')
    from Cons.IH [of s'] show ?thesis
    proof
      assume "\<exists>s1. deleted_in_order ex s' cids = Some s1"
      with Inr show ?thesis by simp
    next
      assume "\<exists>pre c' post s1 e. cids = pre @ c' # post
          \<and> deleted_in_order ex s' pre = Some s1 \<and> bs_delete ex s1 c' = Inl e"
      then obtain pre c' post s1 e where "cids = pre @ c' # post"
        and "deleted_in_order ex s' pre = Some s1" and "bs_delete ex s1 c' = Inl e" by blast
      with Inr have "c # cids = (c # pre) @ c' # post
          \<and> deleted_in_order ex s (c # pre) = Some s1 \<and> bs_delete ex s1 c' = Inl e" by simp
      then show ?thesis by blast
    qed
  qed
qed

text \<open>
  C8. Consumed to its end, \<open>remove\<close> deletes the CIDs in the order of the array. When
  every deletion succeeds, every CID is yielded and the array is empty. Otherwise let
  \<open>c\<close> be the first CID whose deletion fails, after the CIDs \<open>pre\<close> and before \<open>post\<close>:
  exactly \<open>pre\<close> is yielded, the sequence ends with the error of deleting \<open>c\<close>, the store
  is the one reached by deleting \<open>pre\<close> (nothing is rolled back), and \<open>post\<close> is left in
  the array with no deletion attempted: the outcome is the same whatever \<open>post\<close> is. One
  of the two cases applies to every array.
\<close>

theorem remove_all_stops_at_first_failure:
  "(deleted_in_order ex (bs self) cids = Some s1 \<longrightarrow>
      remove_all ex (self, cids) = (cids, None, self\<lparr>bs := s1\<rparr>, []))
   \<and> (deleted_in_order ex (bs self) pre = Some s2 \<and> bs_delete ex s2 c = Inl e \<longrightarrow>
      remove_all ex (self, pre @ c # post) = (pre, Some e, self\<lparr>bs := s2\<rparr>, post))
   \<and> ((\<exists>s. deleted_in_order ex (bs self) cids = Some s)
      \<or> (\<exists>pre' c' post' s e'. cids = pre' @ c' # post'
            \<and> deleted_in_order ex (bs self) pre' = Some s \<and> bs_delete ex s c' = Inl e'))"
  using remove_all_success [of ex self cids s1] remove_all_failure [of ex self pre s2 c e post]
    first_failure [of ex "bs self" cids]
  by blast

theorem remove_all_stops_at_first_failure_witness:
  "deleted_in_order example_externals
      (bs (example_instance [(CID 1 ''dag-cbor'' ''A'', ''a''), (CID 1 ''dag-cbor'' ''C'', ''c'')]))
      [CID 1 ''dag-cbor'' ''A''] = Some [(CID 1 ''dag-cbor'' ''C'', ''c'')]
   \<and> bs_delete example_externals [(CID 1 ''dag-cbor'' ''C'', ''c'')] (CID 1 ''dag-cbor'' ''B'')
       = Inl (Error ''Not Found'')
   \<and> remove_all example_externals
        (example_instance [(CID 1 ''dag-cbor'' ''A'', ''a''), (CID 1 ''dag-cbor'' ''C'', ''c'')],
         [CID 1 ''dag-cbor'' ''A'', CID 1 ''dag-cbor'' ''B'', CID 1 ''dag-cbor'' ''C'']) =
       ([CID 1 ''dag-cbor'' ''A''], Some (Error ''Not Found''),
        example_instance [(CID 1 ''dag-cbor'' ''C'', ''c'')], [CID 1 ''dag-cbor'' ''C''])
   \<and> deleted_in_order example_externals
      (bs (example_instance [(CID 1 ''dag-cbor'' ''A'', ''a''), (CID 1 ''dag-cbor'' ''C'', ''c'')]))
      [CID 1 ''dag-cbor'' ''A'', CID 1 ''dag-cbor'' ''C''] = Some []
   \<and> remove_all example_externals
        (example_instance [(CID 1 ''dag-cbor'' ''A'', ''a''), (CID 1 ''dag-cbor'' ''C'', ''c'')],
         [CID 1 ''dag-cbor'' ''A'', CID 1 ''dag-cbor'' ''C'']) =
       ([CID 1 ''dag-cbor'' ''A'', CID 1 ''dag-cbor'' ''C''], None, example_instance [], [])"
proof -
  let ?inst = "example_instance
      [(CID 1 ''dag-cbor'' ''A'', ''a''), (CID 1 ''dag-cbor'' ''C'', ''c'')]"
  have d1: "deleted_in_order example_externals (bs ?inst) [CID 1 ''dag-cbor'' ''A'']
      = Some [(CID 1 ''dag-cbor'' ''C'', ''c'')]"
    by (simp add: example_instance_def example_externals_def)
  have f: "bs_delete example_externals [(CID 1 ''dag-cbor'' ''C'', ''c'')]
      (CID 1 ''dag-cbor'' ''B'') = Inl (Error ''Not Found'')"
    by (simp add: example_externals_def)
  have d2: "deleted_in_order example_externals (bs ?inst)
      [CID 1 ''dag-cbor'' ''A'', CID 1 ''dag-cbor'' ''C''] = Some []"
    by (simp add: example_instance_def example_externals_def)
  have u1: "?inst\<lparr>bs := [(CID 1 ''dag-cbor'' ''C'', ''c'')]\<rparr>
      = example_instance [(CID 1 ''dag-cbor'' ''C'', ''c'')]"
    by (simp add: example_instance_def)
  have u2: "?inst\<lparr>bs := []\<rparr> = example_instance []"
    by (simp add: example_instance_def)
  from remove_all_stops_at_first_failure [where ex = example_externals and self = ?inst
      and pre = "[CID 1 ''dag-cbor'' ''A'']" and ?s2.0 = "[(CID 1 ''dag-cbor'' ''C'', ''c'')]"
      and c = "CID 1 ''dag-cbor'' ''B''" and e = "Error ''Not Found''"
      and post = "[CID 1 ''dag-cbor'' ''C'']"
      and cids = "[CID 1 ''dag-cbor'' ''A'', CID 1 ''dag-cbor'' ''C'']" and ?s1.0 = "[]"]
    d1 f d2
  have "remove_all example_externals
        (?inst, [CID 1 ''dag-cbor'' ''A''] @ CID 1 ''dag-cbor'' ''B'' # [CID 1 ''dag-cbor'' ''C''])
        = ([CID 1 ''dag-cbor'' ''A''], Some (Error ''Not Found''),
           ?inst\<lparr>bs := [(CID 1 ''dag-cbor'' ''C'', ''c'')]\<rparr>, [CID 1 ''dag-cbor'' ''C''])
     \<and> remove_all example_externals
        (?inst, [CID 1 ''dag-cbor'' ''A'', CID 1 ''dag-cbor'' ''C''])
        = ([CID 1 ''dag-cbor'' ''A'', CID 1 ''dag-cbor'' ''C''], None, ?inst\<lparr>bs := []\<rparr>, [])"
    by blast
  with d1 f d2 show ?thesis by (simp add: u1 u2)
qed

section \<open>Facts about tree\<close>

lemma tree_next_candidate:
  assumes "\<not> (treePaths (snd st) = [] \<and> queue (snd st) = [])"
      and "tree_fill ex st = (Inr u, st1)"
      and "tree_candidate ex cfg st1 = (Inr fullPath, st2)"
  shows "tree_next (Suc n) ex cfg st =
     (if startsWith fullPath (offsetPath cfg) \<and> length (offsetPath cfg) < length fullPath
      then Some (Yield (if 0 < length (offsetPath cfg)
                        then slice fullPath (length (offsetPath cfg) + 1)
                        else fullPath), st2)
      else tree_next n ex cfg st2)"
  using assms by auto

declare tree_next.simps [simp del]

text \<open>
  C9, as the claim states it, fails: with offset path \<open>a\<close> the node's paths \<open>a\<close>, \<open>a/b\<close>
  and \<open>c\<close> give the single output \<open>b\<close>, whereas \<open>a/b\<close> with the prefix \<open>a\<close> stripped is
  \<open>/b\<close>. The character after the offset path is dropped too.
\<close>

theorem tree_next_offset_counterexample:
  "tree (resolver example_entry) ''node'' = Inr [''a'', ''a/b'', ''c'']
   \<and> map_option fst
        (tree_next (Suc (Suc 0)) example_externals
           (fst (tree_init (CID 1 ''dag-cbor'' ''root'') (OffsetString ''a'') None))
           (example_instance [(CID 1 ''dag-cbor'' ''root'', ''node'')],
            snd (tree_init (CID 1 ''dag-cbor'' ''root'') (OffsetString ''a'') None)))
       = Some (Yield ''b'')
   \<and> drop (length ''a'') ''a/b'' = ''/b''"
  by (simp add: tree_next.simps tree_init_def tree_fill_def tree_candidate_def getFormat_def
      lookup_resolver_def codec_number_def constantName_def toUpperCase_char_def
      get_prop_def startsWith_def slice_def example_defs)

text \<open>
  C9, amended. For every candidate \<open>fullPath\<close> (\<open>basePath\<close> followed by the segment) that
  \<open>next\<close> produces: an element is returned for it if and only if it starts with the
  offset path and is strictly longer; otherwise the call returns what the next call
  returns, with no element for the candidate. The element is the full path itself
  when the offset path is empty; and when the offset path is not empty and the full
  path is the offset path followed by the separator \<open>/\<close> and a rest, the element is
  that rest: the offset path and the separator after it are stripped.
\<close>

theorem tree_next_emits_relative_path:
  assumes "\<not> (treePaths (snd st) = [] \<and> queue (snd st) = [])"
      and "tree_fill ex st = (Inr u, st1)"
      and "tree_candidate ex cfg st1 = (Inr fullPath, st2)"
  shows "(startsWith fullPath (offsetPath cfg) \<and> length (offsetPath cfg) < length fullPath
            \<longrightarrow> (\<exists>s. tree_next (Suc n) ex cfg st = Some (Yield s, st2)))
     \<and> (\<not> (startsWith fullPath (offsetPath cfg) \<and> length (offsetPath cfg) < length fullPath)
            \<longrightarrow> tree_next (Suc n) ex cfg st = tree_next n ex cfg st2)
     \<and> (offsetPath cfg = [] \<and> fullPath \<noteq> []
            \<longrightarrow> tree_next (Suc n) ex cfg st = Some (Yield fullPath, st2))
     \<and> (offsetPath cfg \<noteq> [] \<and> fullPath = offsetPath cfg @ ''/'' @ rest
            \<longrightarrow> tree_next (Suc n) ex cfg st = Some (Yield rest, st2))"
proof -
  note c = tree_next_candidate [OF assms, of n]
  have emitted: "\<exists>s. tree_next (Suc n) ex cfg st = Some (Yield s, st2)"
    if "startsWith fullPath (offsetPath cfg) \<and> length (offsetPath cfg) < length fullPath"
    using that by (simp add: c)
  have skipped: "tree_next (Suc n) ex cfg st = tree_next n ex cfg st2"
    if "\<not> (startsWith fullPath (offsetPath cfg) \<and> length (offsetPath cfg) < length fullPath)"
    using that by (simp only: c if_False)
  have whole: "tree_next (Suc n) ex cfg st = Some (Yield fullPath, st2)"
    if "offsetPath cfg = [] \<and> fullPath \<noteq> []"
    using that by (simp add: c startsWith_def)
  have relative: "tree_next (Suc n) ex cfg st = Some (Yield rest, st2)"
    if "offsetPath cfg \<noteq> [] \<and> fullPath = offsetPath cfg @ ''/'' @ rest"
    using that by (simp add: c startsWith_def slice_def)
  from emitted skipped whole relative show ?thesis by blast
qed

theorem tree_next_emits_relative_path_witness:
  "tree_fill example_externals
      (example_instance [(CID 1 ''dag-cbor'' ''root'', ''node'')],
       \<lparr>treePaths = [], tree_block = None, queue = [(CID 1 ''dag-cbor'' ''root'', [])],
        basePath = None\<rparr>) =
     (Inr (), example_instance [(CID 1 ''dag-cbor'' ''root'', ''node'')],
      \<lparr>treePaths = [''a'', ''a/b'', ''c''],
       tree_block = Some (Block ''node'' (CID 1 ''dag-cbor'' ''root'')),
       queue = [], basePath = Some []\<rparr>)
   \<and> tree_next (Suc (Suc 0)) example_externals
        \<lparr>offsetPath = ''a'', tree_options = [(''recursive'', JBool False)]\<rparr>
        (example_instance [(CID 1 ''dag-cbor'' ''root'', ''node'')],
         \<lparr>treePaths = [], tree_block = None, queue = [(CID 1 ''dag-cbor'' ''root'', [])],
          basePath = None\<rparr>) =
       Some (Yield ''b'', example_instance [(CID 1 ''dag-cbor'' ''root'', ''node'')],
         \<lparr>treePaths = [''c''],
          tree_block = Some (Block ''node'' (CID 1 ''dag-cbor'' ''root'')),
          queue = [], basePath = Some []\<rparr>)
   \<and> tree_next (Suc 0) example_externals
        \<lparr>offsetPath = [], tree_options = [(''recursive'', JBool False)]\<rparr>
        (example_instance [(CID 1 ''dag-cbor'' ''root'', ''node'')],
         \<lparr>treePaths = [], tree_block = None, queue = [(CID 1 ''dag-cbor'' ''root'', [])],
          basePath = None\<rparr>) =
       Some (Yield ''a'', example_instance [(CID 1 ''dag-cbor'' ''root'', ''node'')],
         \<lparr>treePaths = [''a/b'', ''c''],
          tree_block = Some (Block ''node'' (CID 1 ''dag-cbor'' ''root'')),
          queue = [], basePath = Some []\<rparr>)
   \<and> tree_init (CID 1 ''dag-cbor'' ''root'') (OffsetString ''c'')
        (Some [(''recursive'', JBool True)]) =
       (\<lparr>offsetPath = ''c'', tree_options = [(''recursive'', JBool True)]\<rparr>,
        \<lparr>treePaths = [], tree_block = None, queue = [(CID 1 ''dag-cbor'' ''root'', [])],
         basePath = None\<rparr>)
   \<and> tree_next (Suc (Suc (Suc (Suc 0)))) example_externals
        \<lparr>offsetPath = ''c'', tree_options = [(''recursive'', JBool True)]\<rparr>
        (example_instance [(CID 1 ''dag-cbor'' ''root'', ''node''),
                           (CID 1 ''dag-cbor'' ''leaf'', ''leafdata'')],
         \<lparr>treePaths = [], tree_block = None, queue = [(CID 1 ''dag-cbor'' ''root'', [])],
          basePath = None\<rparr>) =
       Some (Yield ''a'',
        example_instance [(CID 1 ''dag-cbor'' ''root'', ''node''),
                          (CID 1 ''dag-cbor'' ''leaf'', ''leafdata'')],
        \<lparr>treePaths = [''a/b'', ''c''],
         tree_block = Some (Block ''leafdata'' (CID 1 ''dag-cbor'' ''leaf'')),
         queue = [], basePath = Some ''c/''\<rparr>)
   \<and> tree_candidate example_externals
        \<lparr>offsetPath = ''c'', tree_options = [(''recursive'', JBool True)]\<rparr>
        (example_instance [(CID 1 ''dag-cbor'' ''root'', ''node''),
                           (CID 1 ''dag-cbor'' ''leaf'', ''leafdata'')],
         \<lparr>treePaths = [''a'', ''a/b'', ''c''],
          tree_block = Some (Block ''leafdata'' (CID 1 ''dag-cbor'' ''leaf'')),
          queue = [], basePath = Some ''c/''\<rparr>) =
       (Inr ''c/a'',
        example_instance [(CID 1 ''dag-cbor'' ''root'', ''node''),
                          (CID 1 ''dag-cbor'' ''leaf'', ''leafdata'')],
        \<lparr>treePaths = [''a/b'', ''c''],
         tree_block = Some (Block ''leafdata'' (CID 1 ''dag-cbor'' ''leaf'')),
         queue = [], basePath = Some ''c/''\<rparr>)
   \<and> tree_next (Suc 0) example_externals
        \<lparr>offsetPath = ''c'', tree_options = [(''recursive'', JBool True)]\<rparr>
        (example_instance [(CID 1 ''dag-cbor'' ''root'', ''node''),
                           (CID 1 ''dag-cbor'' ''leaf'', ''leafdata'')],
         \<lparr>treePaths = [], tree_block = Some (Block ''node'' (CID 1 ''dag-cbor'' ''root'')),
          queue = [(CID 1 ''dag-cbor'' ''leaf'', ''c/'')], basePath = Some []\<rparr>) =
       Some (Yield ''a'',
        example_instance [(CID 1 ''dag-cbor'' ''root'', ''node''),
                          (CID 1 ''dag-cbor'' ''leaf'', ''leafdata'')],
        \<lparr>treePaths = [''a/b'', ''c''],
         tree_block = Some (Block ''leafdata'' (CID 1 ''dag-cbor'' ''leaf'')),
         queue = [], basePath = Some ''c/''\<rparr>)"
proof -
  let ?inst = "example_instance [(CID 1 ''dag-cbor'' ''root'', ''node'')]"
  let ?blk = "Some (Block ''node'' (CID 1 ''dag-cbor'' ''root''))"
  let ?t0 = "\<lparr>treePaths = [], tree_block = None, queue = [(CID 1 ''dag-cbor'' ''root'', [])],
        basePath = None\<rparr>"
  let ?t1 = "\<lparr>treePaths = [''a'', ''a/b'', ''c''], tree_block = ?blk, queue = [],
        basePath = Some []\<rparr>"
  let ?t2 = "\<lparr>treePaths = [''a/b'', ''c''], tree_block = ?blk, queue = [], basePath = Some []\<rparr>"
  let ?t3 = "\<lparr>treePaths = [''c''], tree_block = ?blk, queue = [], basePath = Some []\<rparr>"
  let ?cfgA = "\<lparr>offsetPath = ''a'', tree_options = [(''recursive'', JBool False)]\<rparr>"
  let ?cfg0 = "\<lparr>offsetPath = [], tree_options = [(''recursive'', JBool False)]\<rparr>"
  have ne0: "\<not> (treePaths (snd (?inst, ?t0)) = [] \<and> queue (snd (?inst, ?t0)) = [])" by simp
  have ne2: "\<not> (treePaths (snd (?inst, ?t2)) = [] \<and> queue (snd (?inst, ?t2)) = [])" by simp
  have fill0: "tree_fill example_externals (?inst, ?t0) = (Inr (), ?inst, ?t1)"
    by (simp add: tree_fill_def getFormat_def lookup_resolver_def codec_number_def
        constantName_def toUpperCase_char_def example_defs)
  have fill2: "tree_fill example_externals (?inst, ?t2) = (Inr (), ?inst, ?t2)"
    by (simp add: tree_fill_def)
  have cand1: "tree_candidate example_externals cfg (?inst, ?t1) = (Inr ''a'', ?inst, ?t2)"
    if "tree_options cfg = [(''recursive'', JBool False)]" for cfg
    using that by (simp add: tree_candidate_def get_prop_def)
  have cand2: "tree_candidate example_externals ?cfgA (?inst, ?t2) = (Inr ''a/b'', ?inst, ?t3)"
    by (simp add: tree_candidate_def get_prop_def)
  from tree_next_emits_relative_path [OF ne0 fill0 cand1 [of ?cfgA], of "Suc 0"]
  have skip: "tree_next (Suc (Suc 0)) example_externals ?cfgA (?inst, ?t0) =
      tree_next (Suc 0) example_externals ?cfgA (?inst, ?t2)"
    by (simp add: startsWith_def)
  from tree_next_emits_relative_path [OF ne2 fill2 cand2, of 0 "''b''"]
  have emit: "tree_next (Suc 0) example_externals ?cfgA (?inst, ?t2) =
      Some (Yield ''b'', ?inst, ?t3)"
    by simp
  from tree_next_emits_relative_path [OF ne0 fill0 cand1 [of ?cfg0], of 0]
  have whole: "tree_next (Suc 0) example_externals ?cfg0 (?inst, ?t0) =
      Some (Yield ''a'', ?inst, ?t2)"
    by simp
  from skip emit have out: "tree_next (Suc (Suc 0)) example_externals ?cfgA (?inst, ?t0) =
      Some (Yield ''b'', ?inst, ?t3)"
    by simp
  let ?two = "example_instance [(CID 1 ''dag-cbor'' ''root'', ''node''),
                                (CID 1 ''dag-cbor'' ''leaf'', ''leafdata'')]"
  let ?leafblk = "Some (Block ''leafdata'' (CID 1 ''dag-cbor'' ''leaf''))"
  let ?cfgR = "\<lparr>offsetPath = ''c'', tree_options = [(''recursive'', JBool True)]\<rparr>"
  let ?q = "\<lparr>treePaths = [], tree_block = ?blk, queue = [(CID 1 ''dag-cbor'' ''leaf'', ''c/'')],
        basePath = Some []\<rparr>"
  let ?l1 = "\<lparr>treePaths = [''a'', ''a/b'', ''c''], tree_block = ?leafblk, queue = [],
        basePath = Some ''c/''\<rparr>"
  let ?l2 = "\<lparr>treePaths = [''a/b'', ''c''], tree_block = ?leafblk, queue = [],
        basePath = Some ''c/''\<rparr>"
  have init: "tree_init (CID 1 ''dag-cbor'' ''root'') (OffsetString ''c'')
        (Some [(''recursive'', JBool True)]) = (?cfgR, ?t0)"
    by (simp add: tree_init_def)
  have reach: "tree_next (Suc (Suc (Suc (Suc 0)))) example_externals ?cfgR (?two, ?t0) =
      Some (Yield ''a'', ?two, ?l2)"
    by (simp add: tree_next.simps tree_fill_def tree_candidate_def maybeRecurse_def
        maybeCID_def getFormat_def lookup_resolver_def codec_number_def constantName_def
        toUpperCase_char_def get_prop_def startsWith_def slice_def Let_def example_defs)
  have neq: "\<not> (treePaths (snd (?two, ?q)) = [] \<and> queue (snd (?two, ?q)) = [])" by simp
  have fillq: "tree_fill example_externals (?two, ?q) = (Inr (), ?two, ?l1)"
    by (simp add: tree_fill_def getFormat_def lookup_resolver_def codec_number_def
        constantName_def toUpperCase_char_def example_defs)
  have candq: "tree_candidate example_externals ?cfgR (?two, ?l1) = (Inr ''c/a'', ?two, ?l2)"
    by (simp add: tree_candidate_def maybeRecurse_def maybeCID_def getFormat_def
        lookup_resolver_def codec_number_def constantName_def toUpperCase_char_def
        get_prop_def Let_def example_defs)
  from tree_next_emits_relative_path [OF neq fillq candq, of 0 "''a''"]
  have nested: "tree_next (Suc 0) example_externals ?cfgR (?two, ?q) =
      Some (Yield ''a'', ?two, ?l2)"
    by simp
  from fill0 out whole init reach candq nested show ?thesis by blast
qed

text \<open>
  C10. An options object given as second argument of \<open>tree\<close> is taken as the options
  and the offset path becomes the empty string: the configuration and the initial
  state, and with them every result of \<open>next\<close>, are those of \<open>tree(cid, '', options)\<close>.
\<close>

theorem tree_options_as_second_argument:
  "tree_init c (OffsetObject obj) None = tree_init c (OffsetString []) (Some obj)
   \<and> tree_init c (OffsetObject obj) None =
       (\<lparr>offsetPath = [],
         tree_options = mergeOptions [(''recursive'', JBool False)] (Some obj)\<rparr>,
        \<lparr>treePaths = [], tree_block = None, queue = [(c, [])], basePath = None\<rparr>)
   \<and> tree_next n ex (fst (tree_init c (OffsetObject obj) None))
        (self, snd (tree_init c (OffsetObject obj) None)) =
       tree_next n ex (fst (tree_init c (OffsetString []) (Some obj)))
        (self, snd (tree_init c (OffsetString []) (Some obj)))"
  by (simp add: tree_init_def)

end
